theory Spec2Isabelle
  imports Complex_Main "HOL-Library.Multiset"
begin

section \<open>Dawn Patrol: the scoring core of the morning-activity advisor\<close>

text \<open>
  The functions below are a shallow embedding of the scoring code of the application script
  (\<^verbatim>\<open>degreesToCardinal\<close>, \<^verbatim>\<open>getMorningHourIndex\<close>, \<^verbatim>\<open>calculateSurfScore\<close>,
  \<^verbatim>\<open>calculatePhotoScore\<close>, \<^verbatim>\<open>calculateCycleScore\<close>, \<^verbatim>\<open>getRecommendation\<close> and
  \<^verbatim>\<open>getNoaaTideInfo\<close>).

  Conventions of the embedding:
  \<^item> a JavaScript number is a \<^typ>\<open>real\<close>. The quotient of \<^verbatim>\<open>degreesToCardinal\<close> and the
    sum of the direction normalisation are rounded to the nearest double (\<open>fl64\<close>); the
    arithmetic of the score tables and sums is exact. Where a number can be \<^verbatim>\<open>NaN\<close> it is a
    \<^typ>\<open>real option\<close> and \<open>None\<close> is \<^verbatim>\<open>NaN\<close>;
  \<^item> a value read from a forecast array is a \<open>jsval\<close>: \<^verbatim>\<open>undefined\<close> (also the result of
    reading past the end of an array), \<^verbatim>\<open>null\<close> or a number;
  \<^item> an object property that may be absent is an \<open>option\<close>, and reading a property of
    \<^verbatim>\<open>undefined\<close> is the error value \<open>TypeError\<close>: a function that can throw returns
    \<open>error + result\<close>;
  \<^item> \<^verbatim>\<open>getTomorrowDate()\<close> reads the clock, so the target date is a parameter
    \<open>tomorrow\<close>; a timestamp is given by what \<^verbatim>\<open>formatLocalDate(new Date(t))\<close> and
    \<^verbatim>\<open>new Date(t).getHours()\<close> return for it.
\<close>

subsection \<open>JavaScript primitives\<close>

datatype error = TypeError

datatype jsval = Undefined | Null | Num real

text \<open>\<^verbatim>\<open>xs[i]\<close>: reading past the end of an array gives \<^verbatim>\<open>undefined\<close>.\<close>

definition js_index :: "jsval list \<Rightarrow> nat \<Rightarrow> jsval" where
  "js_index xs i = (if i < length xs then xs ! i else Undefined)"

text \<open>Truthiness and \<^verbatim>\<open>a || b\<close>.\<close>

fun truthy :: "jsval \<Rightarrow> bool" where
  "truthy Undefined = False"
| "truthy Null = False"
| "truthy (Num x) = (x \<noteq> 0)"

definition js_or :: "jsval \<Rightarrow> jsval \<Rightarrow> jsval" where
  "js_or a b = (if truthy a then a else b)"

text \<open>\<^verbatim>\<open>a || 0\<close> and \<^verbatim>\<open>a || 50\<close>: the left operand when truthy (then it is a number),
  else the numeric default.\<close>

fun or_num :: "jsval \<Rightarrow> real \<Rightarrow> real" where
  "or_num (Num x) d = (if x \<noteq> 0 then x else d)"
| "or_num Undefined d = d"
| "or_num Null d = d"

text \<open>\<^verbatim>\<open>ToNumber\<close>: \<^verbatim>\<open>undefined\<close> becomes \<^verbatim>\<open>NaN\<close>, \<^verbatim>\<open>null\<close> becomes 0.\<close>

fun toNumber :: "jsval \<Rightarrow> real option" where
  "toNumber Undefined = None"
| "toNumber Null = Some 0"
| "toNumber (Num x) = Some x"

text \<open>Comparisons with a constant: every comparison with \<^verbatim>\<open>NaN\<close> is false.\<close>

fun js_lt :: "real option \<Rightarrow> real \<Rightarrow> bool" where
  "js_lt None b = False"
| "js_lt (Some a) b = (a < b)"

fun js_le :: "real option \<Rightarrow> real \<Rightarrow> bool" where
  "js_le None b = False"
| "js_le (Some a) b = (a \<le> b)"

fun js_gt :: "real option \<Rightarrow> real \<Rightarrow> bool" where
  "js_gt None b = False"
| "js_gt (Some a) b = (a > b)"

fun js_ge :: "real option \<Rightarrow> real \<Rightarrow> bool" where
  "js_ge None b = False"
| "js_ge (Some a) b = (a \<ge> b)"

text \<open>\<^verbatim>\<open>Math.round\<close> rounds to the nearest integer, a tie towards \<open>+\<infinity>\<close>.\<close>

definition math_round :: "real \<Rightarrow> int" where
  "math_round x = \<lfloor>x + 1 / 2\<rfloor>"

text \<open>\<^verbatim>\<open>Math.round\<close> of a number that may be \<^verbatim>\<open>NaN\<close>.\<close>

definition math_round_nan :: "real option \<Rightarrow> real option" where
  "math_round_nan x = map_option (\<lambda>v. of_int (math_round v)) x"

text \<open>\<^verbatim>\<open>a % b\<close> on integers: the remainder has the sign of the dividend.\<close>

definition js_rem :: "int \<Rightarrow> int \<Rightarrow> int" where
  "js_rem a b = sgn a * (\<bar>a\<bar> mod \<bar>b\<bar>)"

text \<open>\<^verbatim>\<open>a % b\<close> on numbers: \<open>a - b * trunc (a / b)\<close>.\<close>

definition js_trunc :: "real \<Rightarrow> int" where
  "js_trunc q = (if 0 \<le> q then \<lfloor>q\<rfloor> else \<lceil>q\<rceil>)"

definition js_fmod :: "real \<Rightarrow> real \<Rightarrow> real" where
  "js_fmod a b = a - b * of_int (js_trunc (a / b))"

text \<open>Decimal rendering of a non-negative integer, as a template literal renders it.\<close>

definition digit_char :: "nat \<Rightarrow> char" where
  "digit_char n = ''0123456789'' ! (n mod 10)"

fun show_nat :: "nat \<Rightarrow> string" where
  "show_nat n = (if n < 10 then [digit_char n] else show_nat (n div 10) @ [digit_char n])"

declare show_nat.simps [simp del]

text \<open>\<^verbatim>\<open>x.toFixed(1)\<close>: the decimal with one fractional digit nearest to \<open>x\<close>, a tie taking the
  larger magnitude; a negative \<open>x\<close> is rendered as \<^verbatim>\<open>-\<close> followed by the rendering of \<open>-x\<close>.
  (Magnitudes of \<open>10\<^sup>2\<^sup>1\<close> and above, which JavaScript prints in exponent notation, are not
  modelled.)\<close>

definition toFixed1_abs :: "real \<Rightarrow> string" where
  "toFixed1_abs x =
     (let n = nat \<lfloor>x * 10 + 1 / 2\<rfloor> in show_nat (n div 10) @ ''.'' @ show_nat (n mod 10))"

definition toFixed1 :: "real \<Rightarrow> string" where
  "toFixed1 x = (if x < 0 then ''-'' @ toFixed1_abs (- x) else toFixed1_abs x)"

subsection \<open>Rounding to a double\<close>

text \<open>Where the rounding of a quotient or a sum can change a result (the quotient in
  \<^verbatim>\<open>degreesToCardinal\<close>, the sum in the direction normalisation of the cycle scorer), the
  result of the operation is rounded to the nearest IEEE 754 double, a tie going to the even
  significand, by \<open>fl64\<close>. A double has a significand of 53 bits; below \<open>2\<^sup>-\<^sup>1\<^sup>0\<^sup>2\<^sup>2\<close> the
  spacing stays that of the smallest normal binade. (Overflow to \<^verbatim>\<open>Infinity\<close>, at magnitudes
  of \<open>2\<^sup>1\<^sup>0\<^sup>2\<^sup>4\<close>, is not modelled.)\<close>

text \<open>\<open>log2_floor n\<close> is the largest \<open>k\<close> with \<open>2\<^sup>k \<le> n\<close> and \<open>log2_ceil n\<close> the least \<open>k\<close>
  with \<open>n \<le> 2\<^sup>k\<close>, for \<open>n \<ge> 1\<close>.\<close>

function log2_floor :: "int \<Rightarrow> int" where
  "log2_floor n = (if n < 2 then 0 else 1 + log2_floor (n div 2))"
  by pat_completeness auto
termination
  by (relation "measure nat") auto

declare log2_floor.simps [simp del]

definition log2_ceil :: "int \<Rightarrow> int" where
  "log2_ceil n = (if n \<le> 1 then 0 else 1 + log2_floor (n - 1))"

text \<open>The binary exponent of a positive number: \<open>2\<^sup>e \<le> x < 2\<^sup>e\<^sup>+\<^sup>1\<close> for \<open>e = binade x\<close>.\<close>

definition binade :: "real \<Rightarrow> int" where
  "binade x = (if 1 \<le> x then log2_floor \<lfloor>x\<rfloor> else - log2_ceil \<lceil>1 / x\<rceil>)"

text \<open>The nearest integer, a tie going to the even one.\<close>

definition round_half_even :: "real \<Rightarrow> int" where
  "round_half_even r =
     (if r - of_int \<lfloor>r\<rfloor> < 1 / 2 then \<lfloor>r\<rfloor>
      else if r - of_int \<lfloor>r\<rfloor> > 1 / 2 then \<lfloor>r\<rfloor> + 1
      else if even \<lfloor>r\<rfloor> then \<lfloor>r\<rfloor> else \<lfloor>r\<rfloor> + 1)"

text \<open>The spacing of the doubles in the binade of \<open>x\<close>, and the double nearest to \<open>x\<close>.\<close>

definition ulp :: "real \<Rightarrow> real" where
  "ulp x = 2 powi (max (binade \<bar>x\<bar>) (- 1022) - 52)"

definition fl64 :: "real \<Rightarrow> real" where
  "fl64 x = (if x = 0 then 0 else of_int (round_half_even (x / ulp x)) * ulp x)"


subsection \<open>Configuration\<close>

definition morningStartHour :: nat where
  "morningStartHour = 6"

definition morningEndHour :: nat where
  "morningEndHour = 9"

subsection \<open>Utility functions\<close>

definition directions :: "string list" where
  "directions = [''N'', ''NNE'', ''NE'', ''ENE'', ''E'', ''ESE'', ''SE'', ''SSE'',
                 ''S'', ''SSW'', ''SW'', ''WSW'', ''W'', ''WNW'', ''NW'', ''NNW'']"

text \<open>\<^verbatim>\<open>degreesToCardinal\<close>: the quotient \<^verbatim>\<open>degrees / 22.5\<close> is a double; \<^verbatim>\<open>Math.round\<close> and
  \<^verbatim>\<open>%\<close> are exact on it. \<open>None\<close> is \<^verbatim>\<open>undefined\<close>, the value of \<^verbatim>\<open>directions[index]\<close> when
  \<open>index\<close> is negative (\<^verbatim>\<open>-0\<close> is the index 0).\<close>

definition degreesToCardinal :: "real \<Rightarrow> string option" where
  "degreesToCardinal degrees =
     (let index = js_rem (math_round (fl64 (degrees / 22.5))) 16
      in if 0 \<le> index \<and> index < int (length directions)
         then Some (directions ! nat index) else None)"

text \<open>A timestamp of a forecast series, as the code looks at it: \<open>localDate\<close> is
  \<^verbatim>\<open>formatLocalDate(new Date(t))\<close> and \<open>hours\<close> is \<^verbatim>\<open>new Date(t).getHours()\<close>.\<close>

record jsdate =
  localDate :: string
  hours :: nat

text \<open>The loop of \<^verbatim>\<open>getMorningHourIndex\<close>, from index \<open>i\<close> on: the first index whose timestamp
  is on the target date with an hour in the morning window, or \<open>-1\<close>.\<close>

fun morning_loop :: "nat \<Rightarrow> jsdate list \<Rightarrow> string \<Rightarrow> int" where
  "morning_loop i [] targetDate = - 1"
| "morning_loop i (t # ts) targetDate =
     (if localDate t = targetDate \<and> hours t \<ge> morningStartHour \<and> hours t \<le> morningEndHour
      then int i
      else morning_loop (Suc i) ts targetDate)"

text \<open>\<^verbatim>\<open>getMorningHourIndex\<close>: \<^verbatim>\<open>hourlyTimes.length\<close> throws when the array is absent.\<close>

definition getMorningHourIndex :: "jsdate list option \<Rightarrow> string \<Rightarrow> error + int" where
  "getMorningHourIndex hourlyTimes targetDate =
     (case hourlyTimes of
        None \<Rightarrow> Inl TypeError
      | Some ts \<Rightarrow> Inr (morning_loop 0 ts targetDate))"

subsection \<open>Forecast data\<close>

text \<open>The hourly block of the general weather response and the response itself. Every array
  may be absent (\<open>None\<close>).\<close>

record weatherHourly =
  wx_time :: "jsdate list option"
  temperature_2m :: "jsval list option"
  relative_humidity_2m :: "jsval list option"
  cloud_cover :: "jsval list option"
  wind_speed_10m :: "jsval list option"
  wind_direction_10m :: "jsval list option"
  weather_code :: "jsval list option"

record weatherData =
  weather_hourly :: "weatherHourly option"

text \<open>The hourly block of the marine response and the response itself.\<close>

record marineHourly =
  marine_time :: "jsdate list option"
  wave_height :: "jsval list option"
  wave_period :: "jsval list option"
  wave_direction :: "jsval list option"
  swell_wave_height :: "jsval list option"
  swell_wave_period :: "jsval list option"
  swell_wave_direction :: "jsval list option"

record marineData =
  marine_hourly :: "marineHourly option"

text \<open>\<^verbatim>\<open>arr || []\<close>: an array, even an empty one, is truthy.\<close>

fun or_empty :: "jsval list option \<Rightarrow> jsval list" where
  "or_empty None = []"
| "or_empty (Some xs) = xs"

subsection \<open>Surf scorer\<close>

text \<open>The object \<^verbatim>\<open>calculateSurfScore\<close> returns. The two early returns carry a score and the
  details only (\<open>surf_parts = None\<close>).\<close>

record surfParts =
  surf_waveHeight :: real
  surf_period :: real
  surf_direction :: real
  surf_heightScore :: real
  surf_periodScore :: real
  surf_windScore :: real

record surfScoreData =
  surf_score :: real
  surf_details :: string
  surf_parts :: "surfParts option"

text \<open>The wave height table of \<^verbatim>\<open>calculateSurfScore\<close>.\<close>

definition heightScore_table :: "real \<Rightarrow> real" where
  "heightScore_table waveHeight =
     (if waveHeight < 1 then 1
      else if waveHeight < 2 then 3
      else if waveHeight < 3 then 5
      else if waveHeight < 4 then 7
      else if waveHeight < 5 then 9
      else if waveHeight < 6 then 10
      else if waveHeight < 8 then 8
      else 6)"

text \<open>The period table of \<^verbatim>\<open>calculateSurfScore\<close>.\<close>

definition periodScore_table :: "real \<Rightarrow> real" where
  "periodScore_table period =
     (if period < 5 then 2
      else if period < 7 then 4
      else if period < 9 then 6
      else if period < 11 then 8
      else 10)"

text \<open>The wind block of \<^verbatim>\<open>calculateSurfScore\<close>: 5 unless the weather data has an hourly block
  with a morning hour. \<^verbatim>\<open>weatherData.hourly.wind_speed_10m[wxIndex]\<close> throws when the array is
  absent.\<close>

definition windScore_block :: "weatherData option \<Rightarrow> string \<Rightarrow> error + real" where
  "windScore_block weatherData tomorrow =
     (case weatherData of
        None \<Rightarrow> Inr 5
      | Some wd \<Rightarrow>
          (case weather_hourly wd of
             None \<Rightarrow> Inr 5
           | Some wh \<Rightarrow>
               (case getMorningHourIndex (wx_time wh) tomorrow of
                  Inl e \<Rightarrow> Inl e
                | Inr wxIndex \<Rightarrow>
                    if wxIndex \<noteq> - 1 then
                      (case wind_speed_10m wh of
                         None \<Rightarrow> Inl TypeError
                       | Some speeds \<Rightarrow>
                           (case wind_direction_10m wh of
                              None \<Rightarrow> Inl TypeError
                            | Some dirs \<Rightarrow>
                                let windSpeed = or_num (js_index speeds (nat wxIndex)) 0;
                                    windDir = or_num (js_index dirs (nat wxIndex)) 0;
                                    isOffshore = (windDir \<ge> 250 \<and> windDir \<le> 320);
                                    isLightWind = (windSpeed < 8)
                                in Inr (if isOffshore \<and> isLightWind then 10
                                        else if isOffshore then 8
                                        else if isLightWind then 7
                                        else if windSpeed < 15 then 4
                                        else 2)))
                    else Inr 5)))"

text \<open>The details string \<^verbatim>\<open>`${heightStr} @ ${periodStr} ${dirStr}`\<close>; an \<^verbatim>\<open>undefined\<close>
  direction label is rendered as the word \<^verbatim>\<open>undefined\<close>.\<close>

definition surf_detail_string :: "real \<Rightarrow> real \<Rightarrow> real \<Rightarrow> string" where
  "surf_detail_string waveHeight period direction =
     (let heightStr = toFixed1 waveHeight @ ''ft'';
          periodStr = (if period > 0 then show_nat (nat (math_round period)) @ ''s'' else []);
          dirStr = (case degreesToCardinal direction of None \<Rightarrow> ''undefined'' | Some l \<Rightarrow> l)
      in heightStr @ '' @ '' @ periodStr @ '' '' @ dirStr)"

text \<open>\<^verbatim>\<open>calculateSurfScore\<close>. The morning index is found by the same loop as in
  \<^verbatim>\<open>getMorningHourIndex\<close>, written out in the source; \<^verbatim>\<open>times.length\<close> throws when the marine
  block has no time array. \<open>swellHeight\<close> is computed as in the source and, as in the source,
  not read afterwards.\<close>

definition calculateSurfScore ::
  "marineData option \<Rightarrow> weatherData option \<Rightarrow> string \<Rightarrow> error + surfScoreData" where
  "calculateSurfScore marine weather tomorrow =
     (case marine of
        None \<Rightarrow>
          Inr \<lparr>surf_score = 0, surf_details = ''No data available'', surf_parts = None\<rparr>
      | Some md \<Rightarrow>
          (case marine_hourly md of
             None \<Rightarrow>
               Inr \<lparr>surf_score = 0, surf_details = ''No data available'', surf_parts = None\<rparr>
           | Some h \<Rightarrow>
               (let waveHeights = or_empty (wave_height h);
                    wavePeriods = or_empty (wave_period h);
                    waveDirections = or_empty (wave_direction h);
                    swellHeights = or_empty (swell_wave_height h);
                    swellPeriods = or_empty (swell_wave_period h);
                    swellDirections = or_empty (swell_wave_direction h)
                in case marine_time h of
                     None \<Rightarrow> Inl TypeError
                   | Some times' \<Rightarrow>
                       (let morningIndex = morning_loop 0 times' tomorrow
                        in if morningIndex = - 1 then
                             Inr \<lparr>surf_score = 0, surf_details = ''No forecast data'',
                                  surf_parts = None\<rparr>
                           else
                             (let i = nat morningIndex;
                                  waveHeight = or_num (js_index waveHeights i) 0;
                                  swellHeight = or_num (js_index swellHeights i) waveHeight;
                                  period = or_num (js_or (js_index swellPeriods i)
                                                         (js_index wavePeriods i)) 0;
                                  direction = or_num (js_or (js_index swellDirections i)
                                                            (js_index waveDirections i)) 0;
                                  heightScore = heightScore_table waveHeight;
                                  periodScore = periodScore_table period
                              in case windScore_block weather tomorrow of
                                   Inl e \<Rightarrow> Inl e
                                 | Inr windScore \<Rightarrow>
                                     (let finalScore = of_int (math_round
                                            (heightScore * 0.4 + periodScore * 0.3
                                               + windScore * 0.3))
                                      in Inr \<lparr>surf_score = min 10 (max 1 finalScore),
                                              surf_details =
                                                surf_detail_string waveHeight period direction,
                                              surf_parts = Some
                                                \<lparr>surf_waveHeight = waveHeight,
                                                 surf_period = period,
                                                 surf_direction = direction,
                                                 surf_heightScore = heightScore,
                                                 surf_periodScore = periodScore,
                                                 surf_windScore = windScore\<rparr>\<rparr>))))))"

subsection \<open>Photo scorer\<close>

text \<open>The object \<^verbatim>\<open>calculatePhotoScore\<close> returns: \<open>photo_details\<close> is present in the early return
  only, \<open>photo_humidity\<close> in the other one only.\<close>

record photoData =
  photo_score :: real
  photo_details :: "string option"
  photo_cloudCover :: jsval
  photo_humidity :: "real option"
  photo_verdict :: string

text \<open>The cloud cover bands of \<^verbatim>\<open>calculatePhotoScore\<close>, on \<open>ToNumber\<close> of the cloud cover read
  from the array. The arithmetic of the first band is reached with a number only; with
  \<^verbatim>\<open>NaN\<close> every comparison is false and the last branch is taken.\<close>

definition photo_bands :: "real option \<Rightarrow> real \<times> string" where
  "photo_bands cloudCover =
     (if js_ge cloudCover 20 \<and> js_le cloudCover 60 then
        (case cloudCover of
           Some c \<Rightarrow> (8 + of_int (math_round ((40 - \<bar>c - 40\<bar>) / 20)),
                      ''Good cloud cover for colorful sunrise'')
         | None \<Rightarrow> (2, ''Overcast - unlikely to see color''))
      else if js_ge cloudCover 10 \<and> js_lt cloudCover 20 then
        (6, ''Light clouds - some color potential'')
      else if js_gt cloudCover 60 \<and> js_le cloudCover 80 then
        (5, ''Heavy clouds - may get some color'')
      else if js_lt cloudCover 10 then
        (4, ''Clear sky - pretty but no cloud color'')
      else
        (2, ''Overcast - unlikely to see color''))"

text \<open>\<^verbatim>\<open>calculatePhotoScore\<close> (its second parameter, the sunrise data, is never read).
  \<^verbatim>\<open>weather.hourly.time\<close> throws without an hourly block, \<^verbatim>\<open>cloud_cover[hourIndex]\<close> without
  the array; the humidity is read with \<^verbatim>\<open>?.\<close> and defaults to 50.\<close>

definition calculatePhotoScore :: "weatherData \<Rightarrow> string \<Rightarrow> error + photoData" where
  "calculatePhotoScore weather tomorrow =
     (case weather_hourly weather of
        None \<Rightarrow> Inl TypeError
      | Some h \<Rightarrow>
          (case getMorningHourIndex (wx_time h) tomorrow of
             Inl e \<Rightarrow> Inl e
           | Inr hourIndex \<Rightarrow>
               if hourIndex = - 1 then
                 Inr \<lparr>photo_score = 0, photo_details = Some ''No data'',
                      photo_cloudCover = Num 0, photo_humidity = None,
                      photo_verdict = ''No data available''\<rparr>
               else
                 (case cloud_cover h of
                    None \<Rightarrow> Inl TypeError
                  | Some covers \<Rightarrow>
                      (let cloudCover = js_index covers (nat hourIndex);
                           humidity = or_num
                             (case relative_humidity_2m h of
                                None \<Rightarrow> Undefined
                              | Some hs \<Rightarrow> js_index hs (nat hourIndex)) 50;
                           (score, verdict) = photo_bands (toNumber cloudCover)
                       in Inr \<lparr>photo_score = score, photo_details = None,
                               photo_cloudCover = cloudCover, photo_humidity = Some humidity,
                               photo_verdict = verdict\<rparr>))))"

subsection \<open>Cycle scorer\<close>

text \<open>The object \<^verbatim>\<open>calculateCycleScore\<close> returns. The early return has \<^verbatim>\<open>details\<close> and a
  \<^verbatim>\<open>null\<close> direction (\<open>cycle_direction = None\<close>) and no \<^verbatim>\<open>directionText\<close>; the other one has the
  wind and temperature fields (\<open>cycle_parts\<close>), whose numbers can be \<^verbatim>\<open>NaN\<close>.\<close>

record cycleParts =
  cycle_windSpeed :: "real option"
  cycle_windDirection :: "real option"
  cycle_windCardinal :: "string option"
  cycle_temp :: "real option"

record cycleData =
  cycle_score :: real
  cycle_details :: "string option"
  cycle_direction :: "string option"
  cycle_directionText :: "string option"
  cycle_parts :: "cycleParts option"

text \<open>The three tables of \<^verbatim>\<open>calculateCycleScore\<close>, on \<open>ToNumber\<close> of the values read.\<close>

definition cycle_windScore :: "real option \<Rightarrow> real" where
  "cycle_windScore windSpeed =
     (if js_lt windSpeed 8 then 10
      else if js_lt windSpeed 12 then 8
      else if js_le windSpeed 15 then 5
      else 1)"

definition cycle_weatherScore :: "real option \<Rightarrow> real" where
  "cycle_weatherScore weatherCode =
     (if js_le weatherCode 3 then 10
      else if js_le weatherCode 49 then 7
      else if js_le weatherCode 59 then 3
      else 0)"

definition cycle_tempScore :: "real option \<Rightarrow> real" where
  "cycle_tempScore temp =
     (if js_ge temp 55 \<and> js_le temp 75 then 10
      else if (js_ge temp 45 \<and> js_lt temp 55) \<or> (js_gt temp 75 \<and> js_le temp 85) then 7
      else 3)"

text \<open>\<^verbatim>\<open>((windDirection % 360) + 360) % 360\<close>: the remainders are exact, the sum is a
  double.\<close>

definition normalizeDir :: "real option \<Rightarrow> real option" where
  "normalizeDir windDirection =
     map_option (\<lambda>d. js_fmod (fl64 (js_fmod d 360 + 360)) 360) windDirection"

text \<open>The loop direction and its text.\<close>

definition cycle_loop_direction :: "real option \<Rightarrow> string \<times> string" where
  "cycle_loop_direction normalizedDir =
     (if js_ge normalizedDir 315 \<or> js_le normalizedDir 45 then
        (''ac'', ''Go to Atlantic City first, wind at your back coming home'')
      else if js_ge normalizedDir 135 \<and> js_le normalizedDir 225 then
        (''longport'', ''Go to Longport first, wind at your back coming home'')
      else
        (''either'', ''Wind is cross-shore, either direction works''))"

text \<open>\<^verbatim>\<open>calculateCycleScore\<close>. The four arrays are read without a guard, so each read throws
  when its array is absent; \<^verbatim>\<open>degreesToCardinal(NaN)\<close> is \<^verbatim>\<open>undefined\<close>.\<close>

definition calculateCycleScore :: "weatherData \<Rightarrow> string \<Rightarrow> error + cycleData" where
  "calculateCycleScore weather tomorrow =
     (case weather_hourly weather of
        None \<Rightarrow> Inl TypeError
      | Some h \<Rightarrow>
          (case getMorningHourIndex (wx_time h) tomorrow of
             Inl e \<Rightarrow> Inl e
           | Inr hourIndex \<Rightarrow>
               if hourIndex = - 1 then
                 Inr \<lparr>cycle_score = 0, cycle_details = Some ''No data'',
                      cycle_direction = None, cycle_directionText = None,
                      cycle_parts = None\<rparr>
               else
                 (case wind_speed_10m h of
                    None \<Rightarrow> Inl TypeError
                  | Some speeds \<Rightarrow>
                 (case wind_direction_10m h of
                    None \<Rightarrow> Inl TypeError
                  | Some dirs \<Rightarrow>
                 (case temperature_2m h of
                    None \<Rightarrow> Inl TypeError
                  | Some temps \<Rightarrow>
                 (case weather_code h of
                    None \<Rightarrow> Inl TypeError
                  | Some codes \<Rightarrow>
                      (let windSpeed = toNumber (js_index speeds (nat hourIndex));
                           windDirection = toNumber (js_index dirs (nat hourIndex));
                           temp = toNumber (js_index temps (nat hourIndex));
                           weatherCode = toNumber (js_index codes (nat hourIndex));
                           windScore = cycle_windScore windSpeed;
                           weatherScore = cycle_weatherScore weatherCode;
                           tempScore = cycle_tempScore temp;
                           finalScore = of_int (math_round
                             (windScore * 0.4 + weatherScore * 0.3 + tempScore * 0.3));
                           normalizedDir = normalizeDir windDirection;
                           (direction, directionText) = cycle_loop_direction normalizedDir
                       in Inr \<lparr>cycle_score = min 10 (max 1 finalScore),
                               cycle_details = None,
                               cycle_direction = Some direction,
                               cycle_directionText = Some directionText,
                               cycle_parts = Some
                                 \<lparr>cycle_windSpeed = math_round_nan windSpeed,
                                  cycle_windDirection = normalizedDir,
                                  cycle_windCardinal =
                                    (case normalizedDir of
                                       None \<Rightarrow> None
                                     | Some d \<Rightarrow> degreesToCardinal d),
                                  cycle_temp = math_round_nan temp\<rparr>\<rparr>)))))))"

subsection \<open>Recommendation arbiter\<close>

record scores =
  surf :: real
  photo :: real
  cycle :: real

record activity =
  act_name :: string
  act_score :: real
  act_label :: string

record recommendation =
  rec_activity :: string
  rec_detail :: string
  rec_icon :: "string option"

text \<open>\<^verbatim>\<open>Array.prototype.sort\<close> with a comparator: the language requires a stable sort. It is
  modelled as an insertion sort that puts an element before the first one the comparator
  does not rank before it, which keeps elements that compare equal in their order. For the
  comparator of the arbiter the sorted array is determined by the language's requirements
  alone, whichever sorting algorithm computes it.\<close>

fun insert_by :: "('a \<Rightarrow> 'a \<Rightarrow> real) \<Rightarrow> 'a \<Rightarrow> 'a list \<Rightarrow> 'a list" where
  "insert_by cmp x [] = [x]"
| "insert_by cmp x (y # ys) =
     (if cmp x y \<le> 0 then x # y # ys else y # insert_by cmp x ys)"

definition array_sort :: "('a \<Rightarrow> 'a \<Rightarrow> real) \<Rightarrow> 'a list \<Rightarrow> 'a list" where
  "array_sort cmp xs = foldr (insert_by cmp) xs []"

text \<open>The array \<^verbatim>\<open>activities\<close> before and after \<^verbatim>\<open>activities.sort((a, b) => b.score - a.score)\<close>.\<close>

definition activities :: "scores \<Rightarrow> activity list" where
  "activities sc =
     [\<lparr>act_name = ''surf'', act_score = surf sc, act_label = ''GO SURF''\<rparr>,
      \<lparr>act_name = ''photo'', act_score = photo sc, act_label = ''SUNRISE PHOTOS''\<rparr>,
      \<lparr>act_name = ''cycle'', act_score = cycle sc, act_label = ''GO CYCLING''\<rparr>]"

definition ranked_activities :: "scores \<Rightarrow> activity list" where
  "ranked_activities sc = array_sort (\<lambda>a b. act_score b - act_score a) (activities sc)"

definition icons :: "(string \<times> string) list" where
  "icons = [(''surf'', ''&#127940;''), (''photo'', ''&#128247;''), (''cycle'', ''&#128690;'')]"

text \<open>A string is truthy when it is present and not empty.\<close>

fun truthy_string :: "string option \<Rightarrow> bool" where
  "truthy_string None = False"
| "truthy_string (Some s) = (s \<noteq> [])"

text \<open>\<^verbatim>\<open>getRecommendation\<close>. The surf data may be absent (it is tested), the cycle data is the
  object \<^verbatim>\<open>calculateCycleScore\<close> returned. \<^verbatim>\<open>activities[0]\<close> of an empty array would be
  \<^verbatim>\<open>undefined\<close> and reading its name would throw.\<close>

definition getRecommendation ::
  "scores \<Rightarrow> surfScoreData option \<Rightarrow> cycleData \<Rightarrow> error + recommendation" where
  "getRecommendation sc surfData cycData =
     (case ranked_activities sc of
        [] \<Rightarrow> Inl TypeError
      | best # rest \<Rightarrow>
          (let detail =
                 (if act_name best = ''surf'' \<and> surfData \<noteq> None then
                    (case surfData of Some sd \<Rightarrow> surf_details sd | None \<Rightarrow> [])
                  else if act_name best = ''cycle''
                          \<and> truthy_string (cycle_directionText cycData) then
                    (case cycle_directionText cycData of Some t \<Rightarrow> t | None \<Rightarrow> [])
                  else if act_name best = ''photo'' then
                    ''Get up early and find your spot''
                  else [])
           in if act_score best < 4 then
                Inr \<lparr>rec_activity = ''SLEEP IN'',
                     rec_detail = ''Nothing looks great tomorrow'',
                     rec_icon = Some ''&#128564;''\<rparr>
              else
                Inr \<lparr>rec_activity = act_label best,
                     rec_detail = detail,
                     rec_icon = map_of icons (act_name best)\<rparr>))"

subsection \<open>Tide formatter\<close>

text \<open>A NOAA prediction \<^verbatim>\<open>{ t: "2024-02-27 06:32", v: "4.123", type: "H" }\<close>.\<close>

record prediction =
  pred_t :: string
  pred_v :: string
  pred_type :: string

record tideEntry =
  tide_type :: string
  tide_time :: string

text \<open>\<^verbatim>\<open>s.split(c)\<close> for a separator of one character: never an empty array.\<close>

fun split_on :: "char \<Rightarrow> string \<Rightarrow> string list" where
  "split_on c [] = [[]]"
| "split_on c (x # xs) =
     (if x = c then [] # split_on c xs
      else (case split_on c xs of
              [] \<Rightarrow> [[x]]
            | w # ws \<Rightarrow> (x # w) # ws))"

text \<open>\<^verbatim>\<open>parts[i]\<close> of an array of strings: \<open>None\<close> is \<^verbatim>\<open>undefined\<close>.\<close>

definition part_at :: "string list \<Rightarrow> nat \<Rightarrow> string option" where
  "part_at parts i = (if i < length parts then Some (parts ! i) else None)"

text \<open>\<^verbatim>\<open>parseInt(s, 10)\<close>: leading white space is skipped, a sign is read, then the longest run
  of decimal digits; \<open>None\<close> is \<^verbatim>\<open>NaN\<close>, the result when there is no digit. (White space is
  the ASCII white space; the other Unicode space characters are not modelled.)\<close>

definition is_space :: "char \<Rightarrow> bool" where
  "is_space c = (c \<in> set [CHR '' '', CHR 0x09, CHR 0x0A, CHR 0x0B, CHR 0x0C, CHR 0x0D])"

definition digit_value :: "char \<Rightarrow> nat option" where
  "digit_value c =
     map_of [(CHR ''0'', 0), (CHR ''1'', 1), (CHR ''2'', 2), (CHR ''3'', 3), (CHR ''4'', 4),
             (CHR ''5'', 5), (CHR ''6'', 6), (CHR ''7'', 7), (CHR ''8'', 8), (CHR ''9'', 9)] c"

fun digits_value :: "nat \<Rightarrow> string \<Rightarrow> nat" where
  "digits_value acc [] = acc"
| "digits_value acc (c # cs) =
     (case digit_value c of
        None \<Rightarrow> acc
      | Some d \<Rightarrow> digits_value (acc * 10 + d) cs)"

definition parseInt :: "string \<Rightarrow> int option" where
  "parseInt s =
     (let s1 = dropWhile is_space s;
          negative = (s1 \<noteq> [] \<and> hd s1 = CHR ''-'');
          s2 = (if s1 \<noteq> [] \<and> (hd s1 = CHR ''-'' \<or> hd s1 = CHR ''+'') then tl s1 else s1)
      in if s2 = [] \<or> digit_value (hd s2) = None then None
         else Some (if negative then - int (digits_value 0 s2) else int (digits_value 0 s2)))"

text \<open>\<^verbatim>\<open>xs.join(sep)\<close>.\<close>

fun join :: "string \<Rightarrow> string list \<Rightarrow> string" where
  "join sep [] = []"
| "join sep [x] = x"
| "join sep (x # y # ys) = x @ sep @ join sep (y # ys)"

text \<open>One pass of the loop body of \<^verbatim>\<open>getNoaaTideInfo\<close> for the prediction \<open>pred\<close>: \<open>Inr None\<close>
  when nothing is pushed, \<open>Inr (Some e)\<close> when the entry \<open>e\<close> is pushed. \<^verbatim>\<open>timeStr.split\<close> throws
  when \<^verbatim>\<open>pred.t\<close> has no blank; a missing minute part is rendered as the word
  \<^verbatim>\<open>undefined\<close>. The source parses the hour part twice (\<^verbatim>\<open>hour\<close>, then \<^verbatim>\<open>hourNum\<close>), with
  the same result; in the branch that renders the hour, it is between 4 and 12.\<close>

definition tide_body :: "string \<Rightarrow> prediction \<Rightarrow> error + tideEntry option" where
  "tide_body tomorrow pred =
     (if pred_type pred \<noteq> ''H'' \<and> pred_type pred \<noteq> ''L'' then Inr None
      else
        (let parts = split_on CHR '' '' (pred_t pred);
             dateStr = part_at parts 0;
             timeStr = part_at parts 1
         in if dateStr = Some tomorrow then
              (case timeStr of
                 None \<Rightarrow> Inl TypeError
               | Some ts \<Rightarrow>
                   (let hm = split_on CHR '':'' ts;
                        hour = parseInt (hd hm)
                    in case hour of
                         None \<Rightarrow> Inr None
                       | Some hourNum \<Rightarrow>
                           if hourNum \<ge> 4 \<and> hourNum \<le> 12 then
                             (let m = (case part_at hm 1 of
                                         None \<Rightarrow> ''undefined''
                                       | Some mm \<Rightarrow> mm);
                                  ampm = (if hourNum \<ge> 12 then ''PM'' else ''AM'');
                                  hour12 = (if hourNum > 12 then hourNum - 12
                                            else if hourNum = 0 then 12 else hourNum)
                              in Inr (Some \<lparr>tide_type = pred_type pred,
                                            tide_time = show_nat (nat hour12) @ '':'' @ m
                                                          @ '' '' @ ampm\<rparr>))
                           else Inr None))
            else Inr None))"

text \<open>The loop over the predictions, \<open>morningTides\<close> being the entries pushed so far.\<close>

fun tide_loop :: "string \<Rightarrow> tideEntry list \<Rightarrow> prediction list \<Rightarrow> error + tideEntry list" where
  "tide_loop tomorrow morningTides [] = Inr morningTides"
| "tide_loop tomorrow morningTides (pred # preds) =
     (case tide_body tomorrow pred of
        Inl e \<Rightarrow> Inl e
      | Inr None \<Rightarrow> tide_loop tomorrow morningTides preds
      | Inr (Some e) \<Rightarrow> tide_loop tomorrow (morningTides @ [e]) preds)"

text \<open>\<^verbatim>\<open>getNoaaTideInfo\<close>; \<open>None\<close> is a \<^verbatim>\<open>null\<close> or absent list of predictions.\<close>

definition getNoaaTideInfo :: "prediction list option \<Rightarrow> string \<Rightarrow> error + string" where
  "getNoaaTideInfo predictions tomorrow =
     (case predictions of
        None \<Rightarrow> Inr ''--''
      | Some preds \<Rightarrow>
          if length preds = 0 then Inr ''--''
          else
            (case tide_loop tomorrow [] preds of
               Inl e \<Rightarrow> Inl e
             | Inr morningTides \<Rightarrow>
                 if length morningTides = 0 then Inr ''--''
                 else Inr (join '', ''
                        (map (\<lambda>t. tide_type t @ '' '' @ tide_time t) morningTides))))"

subsection \<open>Observations and the specification's wording\<close>

text \<open>The three sub-scores and the final score of a surf result that has them.\<close>

definition surf_subscores :: "error + surfScoreData \<Rightarrow> (real \<times> real \<times> real \<times> real) option" where
  "surf_subscores res =
     (case res of
        Inl e \<Rightarrow> None
      | Inr r \<Rightarrow>
          (case surf_parts r of
             None \<Rightarrow> None
           | Some p \<Rightarrow>
               Some (surf_heightScore p, surf_periodScore p, surf_windScore p, surf_score r)))"

text \<open>The score of a photo result.\<close>

definition photo_score_of :: "error + photoData \<Rightarrow> real option" where
  "photo_score_of res = (case res of Inl e \<Rightarrow> None | Inr r \<Rightarrow> Some (photo_score r))"

text \<open>The wave height the specification describes for the surf scorer: the swell height when
  it is present and not zero, else the raw wave height, else 0.\<close>

definition spec_preferred_height :: "jsval \<Rightarrow> jsval \<Rightarrow> real" where
  "spec_preferred_height swell wave = (if truthy swell then or_num swell 0 else or_num wave 0)"

text \<open>The icon that goes with each activity label.\<close>

definition label_icon :: "string \<Rightarrow> string option" where
  "label_icon l =
     map_of [(''GO SURF'', ''&#127940;''), (''SUNRISE PHOTOS'', ''&#128247;''),
             (''GO CYCLING'', ''&#128690;''), (''SLEEP IN'', ''&#128564;'')] l"

text \<open>The tide formatter in the specification's terms: the date, the clock time, the hour and
  the minutes of a prediction, the events that are kept, and the rendering of a kept event
  (its hour is between 4 and 12, so only 12 is rendered with \<^verbatim>\<open>PM\<close>).\<close>

definition pred_date :: "prediction \<Rightarrow> string option" where
  "pred_date p = part_at (split_on CHR '' '' (pred_t p)) 0"

definition pred_clock :: "prediction \<Rightarrow> string option" where
  "pred_clock p = part_at (split_on CHR '' '' (pred_t p)) 1"

definition pred_hour :: "prediction \<Rightarrow> int option" where
  "pred_hour p =
     (case pred_clock p of
        None \<Rightarrow> None
      | Some ts \<Rightarrow> parseInt (hd (split_on CHR '':'' ts)))"

definition pred_minutes :: "prediction \<Rightarrow> string" where
  "pred_minutes p =
     (case pred_clock p of
        None \<Rightarrow> ''undefined''
      | Some ts \<Rightarrow>
          (case part_at (split_on CHR '':'' ts) 1 of
             None \<Rightarrow> ''undefined''
           | Some mm \<Rightarrow> mm))"

definition tide_kept :: "string \<Rightarrow> prediction \<Rightarrow> bool" where
  "tide_kept tomorrow p =
     ((pred_type p = ''H'' \<or> pred_type p = ''L'')
      \<and> pred_date p = Some tomorrow
      \<and> (case pred_hour p of None \<Rightarrow> False | Some h \<Rightarrow> 4 \<le> h \<and> h \<le> 12))"

definition tide_rendered :: "prediction \<Rightarrow> string" where
  "tide_rendered p =
     (case pred_hour p of
        None \<Rightarrow> []
      | Some h \<Rightarrow>
          pred_type p @ '' '' @ show_nat (nat h) @ '':'' @ pred_minutes p @ '' ''
            @ (if h = 12 then ''PM'' else ''AM''))"

definition spec_tide_info :: "prediction list \<Rightarrow> string \<Rightarrow> string" where
  "spec_tide_info preds tomorrow =
     (if filter (tide_kept tomorrow) preds = [] then ''--''
      else join '', '' (map tide_rendered (filter (tide_kept tomorrow) preds)))"

subsection \<open>Example forecasts\<close>

text \<open>A two-hour series whose second hour, 06:00 on 2024-02-27, is in the morning window of
  the target date \<^verbatim>\<open>2024-02-27\<close>.\<close>

definition scenario_times :: "jsdate list" where
  "scenario_times = [\<lparr>localDate = ''2024-02-26'', hours = 23\<rparr>,
                     \<lparr>localDate = ''2024-02-27'', hours = 6\<rparr>]"

text \<open>Waves of 3.2 ft at 9 s from the east, no swell arrays.\<close>

definition scenario_marine :: marineData where
  "scenario_marine = \<lparr>marine_hourly = Some
     \<lparr>marine_time = Some scenario_times,
      wave_height = Some [Num 2.5, Num 3.2],
      wave_period = Some [Num 8, Num 9],
      wave_direction = Some [Num 100, Num 90],
      swell_wave_height = None,
      swell_wave_period = None,
      swell_wave_direction = None\<rparr>\<rparr>"

text \<open>A weather response with the five arrays the request asks for
  (\<^verbatim>\<open>temperature_2m\<close>, \<^verbatim>\<open>relative_humidity_2m\<close>, \<^verbatim>\<open>cloud_cover\<close>, \<^verbatim>\<open>wind_speed_10m\<close>,
  \<^verbatim>\<open>wind_direction_10m\<close>): wind of 6 mph from 270 degrees in the morning hour. The request
  does not ask for \<^verbatim>\<open>weather_code\<close>.\<close>

definition scenario_weather :: weatherData where
  "scenario_weather = \<lparr>weather_hourly = Some
     \<lparr>wx_time = Some scenario_times,
      temperature_2m = Some [Num 50, Num 48],
      relative_humidity_2m = Some [Num 70, Num 75],
      cloud_cover = Some [Num 35, Num 20],
      wind_speed_10m = Some [Num 10, Num 6],
      wind_direction_10m = Some [Num 200, Num 270],
      weather_code = None\<rparr>\<rparr>"

text \<open>Wind waves of 5.5 ft over a swell of 0.5 ft.\<close>

definition windsea_marine :: marineData where
  "windsea_marine = \<lparr>marine_hourly = Some
     \<lparr>marine_time = Some scenario_times,
      wave_height = Some [Num 5.2, Num 5.5],
      wave_period = Some [Num 4, Num 4],
      wave_direction = Some [Num 180, Num 180],
      swell_wave_height = Some [Num 0.5, Num 0.5],
      swell_wave_period = Some [Num 8, Num 8],
      swell_wave_direction = Some [Num 90, Num 90]\<rparr>\<rparr>"

text \<open>A marine response whose hourly block has the wave arrays and no time array.\<close>

definition timeless_marine :: marineData where
  "timeless_marine = \<lparr>marine_hourly = Some
     \<lparr>marine_time = None,
      wave_height = Some [Num 2.5, Num 3.2],
      wave_period = Some [Num 8, Num 9],
      wave_direction = Some [Num 100, Num 90],
      swell_wave_height = None,
      swell_wave_period = None,
      swell_wave_direction = None\<rparr>\<rparr>"

text \<open>A weather response that has a morning hour with the cloud cover \<open>c\<close>, and one whose
  series ends before the target date.\<close>

definition cloudy_weather :: "real \<Rightarrow> weatherData" where
  "cloudy_weather c = \<lparr>weather_hourly = Some
     \<lparr>wx_time = Some [\<lparr>localDate = ''2024-02-27'', hours = 7\<rparr>],
      temperature_2m = Some [Num 48],
      relative_humidity_2m = Some [Num 75],
      cloud_cover = Some [Num c],
      wind_speed_10m = Some [Num 6],
      wind_direction_10m = Some [Num 270],
      weather_code = None\<rparr>\<rparr>"

definition short_weather :: weatherData where
  "short_weather = \<lparr>weather_hourly = Some
     \<lparr>wx_time = Some [\<lparr>localDate = ''2024-02-26'', hours = 7\<rparr>],
      temperature_2m = Some [Num 48],
      relative_humidity_2m = Some [Num 75],
      cloud_cover = Some [Num 30],
      wind_speed_10m = Some [Num 6],
      wind_direction_10m = Some [Num 270],
      weather_code = None\<rparr>\<rparr>"

text \<open>Three tide predictions on the target date: high at 05:45, low at 11:50, high at 14:00.\<close>

definition scenario_tides :: "prediction list" where
  "scenario_tides =
     [\<lparr>pred_t = ''2024-02-27 05:45'', pred_v = ''4.123'', pred_type = ''H''\<rparr>,
      \<lparr>pred_t = ''2024-02-27 11:50'', pred_v = ''0.312'', pred_type = ''L''\<rparr>,
      \<lparr>pred_t = ''2024-02-27 14:00'', pred_v = ''3.871'', pred_type = ''H''\<rparr>]"

text \<open>A surf result and a cycle result as the scorers return them, for the arbiter.\<close>

definition sample_surf :: surfScoreData where
  "sample_surf = \<lparr>surf_score = 8, surf_details = ''3.2ft @ 9s E'',
     surf_parts = Some \<lparr>surf_waveHeight = 3.2, surf_period = 9, surf_direction = 90,
       surf_heightScore = 7, surf_periodScore = 8, surf_windScore = 10\<rparr>\<rparr>"

definition sample_cycle :: cycleData where
  "sample_cycle = \<lparr>cycle_score = 9, cycle_details = None,
     cycle_direction = Some ''either'',
     cycle_directionText = Some ''Wind is cross-shore, either direction works'',
     cycle_parts = Some \<lparr>cycle_windSpeed = Some 6, cycle_windDirection = Some 270,
       cycle_windCardinal = Some ''W'', cycle_temp = Some 48\<rparr>\<rparr>"

section \<open>Properties\<close>

subsection \<open>Rounding to a double\<close>







lemma round_half_even_le: "r \<le> of_int n \<Longrightarrow> round_half_even r \<le> n"
proof (cases "r = of_int \<lfloor>r\<rfloor>")
  case True
  assume "r \<le> of_int n"
  with True have "\<lfloor>r\<rfloor> \<le> n" by linarith
  moreover from True have "r - of_int \<lfloor>r\<rfloor> < 1 / 2" by simp
  ultimately show ?thesis by (simp add: round_half_even_def)
next
  case False
  assume "r \<le> of_int n"
  moreover have "of_int \<lfloor>r\<rfloor> \<le> r" by linarith
  ultimately have "of_int \<lfloor>r\<rfloor> < (of_int n :: real)" using False by linarith
  then have "\<lfloor>r\<rfloor> + 1 \<le> n" by linarith
  then show ?thesis by (auto simp add: round_half_even_def)
qed

















subsection \<open>Cardinal directions\<close>











subsection \<open>Evaluation of the example forecasts\<close>

lemma scenario_morning: "morning_loop 0 scenario_times ''2024-02-27'' = 1"
  by (simp add: scenario_times_def morningStartHour_def morningEndHour_def)

lemma scenario_wind: "windScore_block (Some scenario_weather) ''2024-02-27'' = Inr 10"
  by (simp add: windScore_block_def scenario_weather_def getMorningHourIndex_def
        scenario_morning js_index_def)

lemma no_weather_wind: "windScore_block None tomorrow = Inr 5"
  by (simp add: windScore_block_def)

lemma scenario_surf_subscores:
  "surf_subscores (calculateSurfScore (Some scenario_marine) (Some scenario_weather)
     ''2024-02-27'') = Some (7, 8, 10, 8)"
  by code_simp

subsection \<open>Surf scorer\<close>

text \<open>The result of the surf scorer when the marine series has a morning hour.\<close>

lemma surf_subscores_found:
  assumes "marine_hourly md = Some h"
    and "marine_time h = Some ts"
    and "morning_loop 0 ts tomorrow = int i"
    and "windScore_block weather tomorrow = Inr w"
  shows "surf_subscores (calculateSurfScore (Some md) weather tomorrow) =
           Some (heightScore_table (or_num (js_index (or_empty (wave_height h)) i) 0),
                 periodScore_table
                   (or_num (js_or (js_index (or_empty (swell_wave_period h)) i)
                                  (js_index (or_empty (wave_period h)) i)) 0),
                 w,
                 min 10 (max 1 (of_int (math_round
                   (heightScore_table (or_num (js_index (or_empty (wave_height h)) i) 0) * 0.4
                    + periodScore_table
                        (or_num (js_or (js_index (or_empty (swell_wave_period h)) i)
                                       (js_index (or_empty (wave_period h)) i)) 0) * 0.3
                    + w * 0.3)))))"
  using assms by (simp add: surf_subscores_def calculateSurfScore_def Let_def)

text \<open>The wind sub-score for a light offshore wind in the morning hour of the weather series.\<close>

lemma windScore_offshore_light:
  assumes "weather_hourly wd = Some wh"
    and "wx_time wh = Some wts"
    and "morning_loop 0 wts tomorrow = int j"
    and "wind_speed_10m wh = Some speeds"
    and "wind_direction_10m wh = Some dirs"
    and "js_index speeds j = Num v" and "v \<noteq> 0" and "v < 8"
    and "js_index dirs j = Num dir" and "250 \<le> dir" and "dir \<le> 320"
  shows "windScore_block (Some wd) tomorrow = Inr 10"
  using assms by (simp add: windScore_block_def getMorningHourIndex_def Let_def)

text \<open>
  C3 (as amended). For a wave height of 3.2 ft, a period of 9 s and a wind of 6 mph from an
  offshore direction (within 250 to 320 degrees) in the morning hour, the surf scorer
  produces the height sub-score 7 (3.2 is in the band from 3 to 4), the period sub-score 8,
  the wind sub-score 10 and the final score \<open>round (7 * 0.4 + 8 * 0.3 + 10 * 0.3) = 8\<close>.
\<close>

theorem surf_scenario_scores:
  assumes "marine_hourly md = Some h"
    and "marine_time h = Some ts"
    and "morning_loop 0 ts tomorrow = int i"
    and "js_index (or_empty (wave_height h)) i = Num 3.2"
    and "or_num (js_or (js_index (or_empty (swell_wave_period h)) i)
                       (js_index (or_empty (wave_period h)) i)) 0 = 9"
    and "weather_hourly wd = Some wh"
    and "wx_time wh = Some wts"
    and "morning_loop 0 wts tomorrow = int j"
    and "wind_speed_10m wh = Some speeds"
    and "wind_direction_10m wh = Some dirs"
    and "js_index speeds j = Num 6"
    and "js_index dirs j = Num dir" and "250 \<le> dir" and "dir \<le> 320"
  shows "surf_subscores (calculateSurfScore (Some md) (Some wd) tomorrow) = Some (7, 8, 10, 8)"
proof -
  have wind: "windScore_block (Some wd) tomorrow = Inr 10"
    using assms(6-14) by (intro windScore_offshore_light [where v = 6]) simp_all
  have final: "min 10 (max 1 (real_of_int (math_round (7 * 0.4 + 8 * 0.3 + 10 * 0.3)))) = 8"
    by (simp add: math_round_def)
  have "heightScore_table 3.2 = 7" and "periodScore_table 9 = 8"
    by (simp_all add: heightScore_table_def periodScore_table_def)
  with surf_subscores_found [OF assms(1-3) wind] assms(4,5) final
  show ?thesis by simp
qed

theorem surf_scenario_scores_witness:
  "surf_subscores (calculateSurfScore (Some scenario_marine) (Some scenario_weather)
     ''2024-02-27'') = Some (7, 8, 10, 8)"
proof -
  let ?h = "\<lparr>marine_time = Some scenario_times,
      wave_height = Some [Num 2.5, Num 3.2],
      wave_period = Some [Num 8, Num 9],
      wave_direction = Some [Num 100, Num 90],
      swell_wave_height = None,
      swell_wave_period = None,
      swell_wave_direction = None\<rparr>"
  let ?wh = "\<lparr>wx_time = Some scenario_times,
      temperature_2m = Some [Num 50, Num 48],
      relative_humidity_2m = Some [Num 70, Num 75],
      cloud_cover = Some [Num 35, Num 20],
      wind_speed_10m = Some [Num 10, Num 6],
      wind_direction_10m = Some [Num 200, Num 270],
      weather_code = None\<rparr>"
  show ?thesis
  proof (rule surf_scenario_scores [where h = ?h and ts = scenario_times and i = 1
        and wh = ?wh and wts = scenario_times and j = 1
        and speeds = "[Num 10, Num 6]" and dirs = "[Num 200, Num 270]" and dir = 270])
  qed (simp_all add: scenario_marine_def scenario_weather_def scenario_morning
        js_index_def js_or_def)
qed

text \<open>The scores the specification gives for this scenario (height sub-score 5, final score
  7) are not the ones the code computes.\<close>

theorem surf_scenario_counterexample:
  "surf_subscores (calculateSurfScore (Some scenario_marine) (Some scenario_weather)
     ''2024-02-27'') \<noteq> Some (5, 8, 10, 7)"
  by (simp add: scenario_surf_subscores)

text \<open>
  C1. The specification has the height sub-score computed from the swell height when that is
  present and not zero. On wind waves of 5.5 ft over a swell of 0.5 ft the code scores the raw
  wave height (sub-score 10), where the preferred swell height would give the sub-score 1:
  the swell height is computed with its fallback and then not used.
\<close>

theorem surf_height_from_raw_wave:
  "surf_subscores (calculateSurfScore (Some windsea_marine) None ''2024-02-27'')
     = Some (10, 6, 5, 7)
   \<and> heightScore_table (spec_preferred_height (Num 0.5) (Num 5.5)) = 1
   \<and> heightScore_table (or_num (Num 5.5) 0) = 10"
  by code_simp

subsection \<open>Photo scorer\<close>

text \<open>Inside the band from 20 to 60 the rounded term is 2 within ten points of 40, else 1.\<close>

lemma photo_round_band:
  assumes "20 \<le> c" and "c \<le> 60"
  shows "math_round ((40 - \<bar>c - 40\<bar>) / 20) = (if \<bar>c - 40\<bar> \<le> 10 then 2 else 1)"
proof (cases "\<bar>c - 40\<bar> \<le> 10")
  case True
  have nonneg: "0 \<le> \<bar>c - 40\<bar>" by simp
  have "\<lfloor>(40 - \<bar>c - 40\<bar>) / 20 + 1 / 2\<rfloor> = 2"
  proof (rule floor_unique)
    show "of_int 2 \<le> (40 - \<bar>c - 40\<bar>) / 20 + 1 / 2"
      using True by (simp add: field_simps)
    show "(40 - \<bar>c - 40\<bar>) / 20 + 1 / 2 < of_int 2 + 1"
      using nonneg by (simp add: field_simps)
  qed
  with True show ?thesis by (simp add: math_round_def)
next
  case False
  have width: "\<bar>c - 40\<bar> \<le> 20"
    using assms by (simp add: abs_le_iff)
  have "\<lfloor>(40 - \<bar>c - 40\<bar>) / 20 + 1 / 2\<rfloor> = 1"
  proof (rule floor_unique)
    show "of_int 1 \<le> (40 - \<bar>c - 40\<bar>) / 20 + 1 / 2"
      using width by (simp add: field_simps)
    show "(40 - \<bar>c - 40\<bar>) / 20 + 1 / 2 < of_int 1 + 1"
      using False by (simp add: field_simps)
  qed
  with False show ?thesis by (simp add: math_round_def)
qed

lemma photo_bands_in_band:
  assumes "20 \<le> c" and "c \<le> 60"
  shows "fst (photo_bands (Some c)) = 8 + of_int (math_round ((40 - \<bar>c - 40\<bar>) / 20))"
  using assms by (simp add: photo_bands_def)

lemma photo_bands_in_band_values:
  assumes "js_ge c 20" and "js_le c 60"
  shows "fst (photo_bands c) \<in> {9, 10}"
proof (cases c)
  case None
  with assms show ?thesis by simp
next
  case (Some x)
  with assms have "20 \<le> x" and "x \<le> 60" by simp_all
  then show ?thesis
    using Some by (simp add: photo_bands_in_band photo_round_band)
qed

lemma photo_bands_values: "fst (photo_bands c) \<in> {2, 4, 5, 6, 9, 10}"
proof (cases "js_ge c 20 \<and> js_le c 60")
  case True
  then have "js_ge c 20" and "js_le c 60" by simp_all
  then have "fst (photo_bands c) \<in> {9, 10}"
    by (rule photo_bands_in_band_values)
  then show ?thesis by auto
next
  case False
  then show ?thesis by (auto simp add: photo_bands_def)
qed

text \<open>The photo scorer with and without a morning hour in the weather series.\<close>

lemma photo_not_found:
  assumes "weather_hourly w = Some h"
    and "getMorningHourIndex (wx_time h) tomorrow = Inr (- 1)"
  shows "photo_score_of (calculatePhotoScore w tomorrow) = Some 0"
  using assms by (simp add: photo_score_of_def calculatePhotoScore_def)

lemma photo_found:
  assumes "weather_hourly w = Some h"
    and "getMorningHourIndex (wx_time h) tomorrow = Inr idx"
    and "idx \<noteq> - 1"
    and "cloud_cover h = Some cs"
  shows "\<exists>r. calculatePhotoScore w tomorrow = Inr r
           \<and> photo_score r = fst (photo_bands (toNumber (js_index cs (nat idx))))
           \<and> photo_cloudCover r = js_index cs (nat idx)"
  using assms by (simp add: calculatePhotoScore_def Let_def split: prod.split)

lemma photo_found_no_cover:
  assumes "weather_hourly w = Some h"
    and "getMorningHourIndex (wx_time h) tomorrow = Inr idx"
    and "idx \<noteq> - 1"
    and "cloud_cover h = None"
  shows "calculatePhotoScore w tomorrow = Inl TypeError"
  using assms by (simp add: calculatePhotoScore_def)

lemma cloudy_hourly:
  "weather_hourly (cloudy_weather c) = Some
     \<lparr>wx_time = Some [\<lparr>localDate = ''2024-02-27'', hours = 7\<rparr>],
      temperature_2m = Some [Num 48],
      relative_humidity_2m = Some [Num 75],
      cloud_cover = Some [Num c],
      wind_speed_10m = Some [Num 6],
      wind_direction_10m = Some [Num 270],
      weather_code = None\<rparr>"
  by (simp add: cloudy_weather_def)

lemma cloudy_morning:
  "morning_loop 0 [\<lparr>localDate = ''2024-02-27'', hours = 7\<rparr>] ''2024-02-27'' = int 0"
  by (simp add: morningStartHour_def morningEndHour_def)

text \<open>
  C4 (as amended). For a cloud cover \<open>c\<close> between 20 and 60 the photo score is
  \<open>8 + round ((40 - |c - 40|) / 20)\<close>, which is 9 or 10: it is 10 at \<open>c = 40\<close> and 9, its
  least value in the band, at the band edges \<open>c = 20\<close> and \<open>c = 60\<close>.
\<close>

theorem photo_good_band:
  assumes "weather_hourly w = Some h"
    and "wx_time h = Some ts"
    and "morning_loop 0 ts tomorrow = int i"
    and "cloud_cover h = Some cs"
    and "js_index cs i = Num c"
    and "20 \<le> c" and "c \<le> 60"
  shows "photo_score_of (calculatePhotoScore w tomorrow)
           = Some (8 + of_int (math_round ((40 - \<bar>c - 40\<bar>) / 20)))
         \<and> 9 \<le> 8 + real_of_int (math_round ((40 - \<bar>c - 40\<bar>) / 20))
         \<and> 8 + real_of_int (math_round ((40 - \<bar>c - 40\<bar>) / 20)) \<le> 10
         \<and> (c = 40 \<longrightarrow> photo_score_of (calculatePhotoScore w tomorrow) = Some 10)
         \<and> (c = 20 \<or> c = 60 \<longrightarrow> photo_score_of (calculatePhotoScore w tomorrow) = Some 9)"
proof -
  have idx: "getMorningHourIndex (wx_time h) tomorrow = Inr (int i)"
    using assms(2,3) by (simp add: getMorningHourIndex_def)
  have "int i \<noteq> - 1" by simp
  from photo_found [OF assms(1) idx this assms(4)] assms(5-7)
  have score: "photo_score_of (calculatePhotoScore w tomorrow)
                 = Some (8 + of_int (math_round ((40 - \<bar>c - 40\<bar>) / 20)))"
    by (auto simp add: photo_score_of_def photo_bands_in_band)
  have round: "math_round ((40 - \<bar>c - 40\<bar>) / 20) = (if \<bar>c - 40\<bar> \<le> 10 then 2 else 1)"
    using assms(6,7) by (rule photo_round_band)
  show ?thesis
    unfolding score round by auto
qed

theorem photo_good_band_witness:
  "photo_score_of (calculatePhotoScore (cloudy_weather 40) ''2024-02-27'') = Some 10
   \<and> photo_score_of (calculatePhotoScore (cloudy_weather 20) ''2024-02-27'') = Some 9
   \<and> photo_score_of (calculatePhotoScore (cloudy_weather 60) ''2024-02-27'') = Some 9"
proof -
  have at: "photo_score_of (calculatePhotoScore (cloudy_weather c) ''2024-02-27'')
              = Some (8 + of_int (math_round ((40 - \<bar>c - 40\<bar>) / 20)))
            \<and> 9 \<le> 8 + real_of_int (math_round ((40 - \<bar>c - 40\<bar>) / 20))
            \<and> 8 + real_of_int (math_round ((40 - \<bar>c - 40\<bar>) / 20)) \<le> 10
            \<and> (c = 40 \<longrightarrow>
                 photo_score_of (calculatePhotoScore (cloudy_weather c) ''2024-02-27'')
                   = Some 10)
            \<and> (c = 20 \<or> c = 60 \<longrightarrow>
                 photo_score_of (calculatePhotoScore (cloudy_weather c) ''2024-02-27'')
                   = Some 9)"
    if "20 \<le> c" and "c \<le> 60" for c
    by (rule photo_good_band [where cs = "[Num c]", OF cloudy_hourly _ cloudy_morning _ _ that])
      (simp_all add: js_index_def)
  have "(20::real) \<le> 40" and "(40::real) \<le> 60" and "(20::real) \<le> 20"
    and "(20::real) \<le> 60" and "(60::real) \<le> 60"
    by simp_all
  then have "photo_score_of (calculatePhotoScore (cloudy_weather 40) ''2024-02-27'') = Some 10"
    and "photo_score_of (calculatePhotoScore (cloudy_weather 20) ''2024-02-27'') = Some 9"
    and "photo_score_of (calculatePhotoScore (cloudy_weather 60) ''2024-02-27'') = Some 9"
    using at [of 40] at [of 20] at [of 60] by blast+
  then show ?thesis by blast
qed

text \<open>The score at the band edge \<open>c = 20\<close> is not 8, the value the specification gives.\<close>

theorem photo_band_edge_counterexample:
  "photo_score_of (calculatePhotoScore (cloudy_weather 20) ''2024-02-27'') \<noteq> Some 8"
  by code_simp

text \<open>
  C8. When the weather series has a morning hour, a photo score that is returned is one of
  2, 4, 5, 6, 9 and 10; it is never 8, and for a cloud cover in the band from 20 to 60 it is
  9 or 10. A score is returned whenever the cloud cover array is present. When the series has
  no morning hour the score is 0.
\<close>

theorem photo_score_values:
  assumes "weather_hourly w = Some h"
    and "getMorningHourIndex (wx_time h) tomorrow = Inr idx"
  shows "(idx = - 1 \<longrightarrow> photo_score_of (calculatePhotoScore w tomorrow) = Some 0)
         \<and> (idx \<noteq> - 1 \<longrightarrow>
              (\<forall>r. calculatePhotoScore w tomorrow = Inr r \<longrightarrow>
                 photo_score r \<in> {2, 4, 5, 6, 9, 10}
                 \<and> photo_score r \<noteq> 8
                 \<and> (js_ge (toNumber (photo_cloudCover r)) 20
                      \<and> js_le (toNumber (photo_cloudCover r)) 60
                    \<longrightarrow> photo_score r \<in> {9, 10}))
              \<and> (cloud_cover h \<noteq> None \<longrightarrow>
                   photo_score_of (calculatePhotoScore w tomorrow)
                     \<in> Some ` {2, 4, 5, 6, 9, 10}))"
proof (intro conjI impI allI)
  assume "idx = - 1"
  with assms show "photo_score_of (calculatePhotoScore w tomorrow) = Some 0"
    by (simp add: photo_not_found)
next
  fix r
  assume found: "idx \<noteq> - 1" and res: "calculatePhotoScore w tomorrow = Inr r"
  have "cloud_cover h \<noteq> None"
    using photo_found_no_cover [OF assms found] res by auto
  then obtain cs where "cloud_cover h = Some cs" by auto
  from photo_found [OF assms found this] res
  have score: "photo_score r = fst (photo_bands (toNumber (photo_cloudCover r)))"
    by auto
  show in_set: "photo_score r \<in> {2, 4, 5, 6, 9, 10}"
    unfolding score by (rule photo_bands_values)
  then show "photo_score r \<noteq> 8" by auto
  assume "js_ge (toNumber (photo_cloudCover r)) 20
          \<and> js_le (toNumber (photo_cloudCover r)) 60"
  then have "js_ge (toNumber (photo_cloudCover r)) 20"
    and "js_le (toNumber (photo_cloudCover r)) 60" by simp_all
  then show "photo_score r \<in> {9, 10}"
    unfolding score by (rule photo_bands_in_band_values)
next
  assume found: "idx \<noteq> - 1" and "cloud_cover h \<noteq> None"
  then obtain cs where "cloud_cover h = Some cs" by auto
  from photo_found [OF assms found this]
  obtain r where res: "calculatePhotoScore w tomorrow = Inr r"
    and score: "photo_score r = fst (photo_bands (toNumber (js_index cs (nat idx))))"
    by auto
  have "photo_score r \<in> {2, 4, 5, 6, 9, 10}"
    unfolding score by (rule photo_bands_values)
  with res show "photo_score_of (calculatePhotoScore w tomorrow)
                   \<in> Some ` {2, 4, 5, 6, 9, 10}"
    by (simp add: photo_score_of_def)
qed

theorem photo_score_values_witness:
  "photo_score_of (calculatePhotoScore short_weather ''2024-02-27'') = Some 0
   \<and> photo_score_of (calculatePhotoScore (cloudy_weather 35) ''2024-02-27'')
        \<in> Some ` {2, 4, 5, 6, 9, 10}
   \<and> photo_score_of (calculatePhotoScore (cloudy_weather 35) ''2024-02-27'')
        \<in> Some ` {9, 10}"
proof -
  let ?sh = "\<lparr>wx_time = Some [\<lparr>localDate = ''2024-02-26'', hours = 7\<rparr>],
      temperature_2m = Some [Num 48],
      relative_humidity_2m = Some [Num 75],
      cloud_cover = Some [Num 30],
      wind_speed_10m = Some [Num 6],
      wind_direction_10m = Some [Num 270],
      weather_code = None\<rparr>"
  have "weather_hourly short_weather = Some ?sh"
    by (simp add: short_weather_def)
  moreover have "getMorningHourIndex (wx_time ?sh) ''2024-02-27'' = Inr (- 1)"
    by (simp add: getMorningHourIndex_def)
  ultimately have a: "photo_score_of (calculatePhotoScore short_weather ''2024-02-27'') = Some 0"
    using photo_score_values [of short_weather ?sh "''2024-02-27''" "- 1"] by simp
  let ?ch = "\<lparr>wx_time = Some [\<lparr>localDate = ''2024-02-27'', hours = 7\<rparr>],
      temperature_2m = Some [Num 48],
      relative_humidity_2m = Some [Num 75],
      cloud_cover = Some [Num 35],
      wind_speed_10m = Some [Num 6],
      wind_direction_10m = Some [Num 270],
      weather_code = None\<rparr>"
  have "getMorningHourIndex (wx_time ?ch) ''2024-02-27'' = Inr 0"
    using cloudy_morning by (simp add: getMorningHourIndex_def)
  with cloudy_hourly [of 35]
  have all: "(\<forall>r. calculatePhotoScore (cloudy_weather 35) ''2024-02-27'' = Inr r \<longrightarrow>
                 photo_score r \<in> {2, 4, 5, 6, 9, 10}
                 \<and> photo_score r \<noteq> 8
                 \<and> (js_ge (toNumber (photo_cloudCover r)) 20
                      \<and> js_le (toNumber (photo_cloudCover r)) 60
                    \<longrightarrow> photo_score r \<in> {9, 10}))"
    and b: "photo_score_of (calculatePhotoScore (cloudy_weather 35) ''2024-02-27'')
              \<in> Some ` {2, 4, 5, 6, 9, 10}"
    using photo_score_values [of "cloudy_weather 35" ?ch "''2024-02-27''" 0] by simp_all
  from b obtain r where res: "calculatePhotoScore (cloudy_weather 35) ''2024-02-27'' = Inr r"
    by (auto simp add: photo_score_of_def split: sum.splits)
  from photo_found [OF cloudy_hourly [of 35] \<open>getMorningHourIndex (wx_time ?ch) ''2024-02-27'' = Inr 0\<close>]
    res
  have "photo_cloudCover r = Num 35"
    by (auto simp add: js_index_def)
  with all res have "photo_score r \<in> {9, 10}" by simp
  with res have c: "photo_score_of (calculatePhotoScore (cloudy_weather 35) ''2024-02-27'')
                      \<in> Some ` {9, 10}"
    by (simp add: photo_score_of_def)
  from a b c show ?thesis by simp
qed

subsection \<open>Totality of the scorers\<close>

text \<open>The cycle scorer returns a score between 0 and 10 when the hourly block has the time
  array and the four arrays it reads.\<close>

lemma calculateCycleScore_returns:
  assumes "weather_hourly w = Some h"
    and "wx_time h = Some ts"
    and "wind_speed_10m h = Some speeds"
    and "wind_direction_10m h = Some dirs"
    and "temperature_2m h = Some temps"
    and "weather_code h = Some codes"
  shows "\<exists>r. calculateCycleScore w tomorrow = Inr r \<and> 0 \<le> cycle_score r \<and> cycle_score r \<le> 10"
  using assms
  by (simp add: calculateCycleScore_def getMorningHourIndex_def Let_def le_max_iff_disj
        split: prod.split)

text \<open>
  C2. The specification has every scorer return a result for every well-typed input. The
  cycle scorer throws on a weather response that has a morning hour and the five arrays the
  request asks for, because it reads the \<^verbatim>\<open>weather_code\<close> array, which is not among them; the
  photo scorer throws on a weather object without an hourly block; the surf scorer throws on a
  marine hourly block without a time array.
\<close>

theorem scorers_throw_on_absent_arrays:
  "calculateCycleScore scenario_weather ''2024-02-27'' = Inl TypeError
   \<and> calculatePhotoScore \<lparr>weather_hourly = None\<rparr> ''2024-02-27'' = Inl TypeError
   \<and> calculateSurfScore (Some timeless_marine) (Some scenario_weather) ''2024-02-27''
       = Inl TypeError"
  by code_simp

subsection \<open>Recommendation arbiter\<close>

text \<open>The sorted array, written out: the insertion of \<open>photo\<close> before or after \<open>cycle\<close>, then
  of \<open>surf\<close> into the result.\<close>

lemma ranked_activities_cases:
  "ranked_activities sc =
     (if photo sc \<ge> cycle sc then
        (if surf sc \<ge> photo sc then
           [\<lparr>act_name = ''surf'', act_score = surf sc, act_label = ''GO SURF''\<rparr>,
            \<lparr>act_name = ''photo'', act_score = photo sc, act_label = ''SUNRISE PHOTOS''\<rparr>,
            \<lparr>act_name = ''cycle'', act_score = cycle sc, act_label = ''GO CYCLING''\<rparr>]
         else if surf sc \<ge> cycle sc then
           [\<lparr>act_name = ''photo'', act_score = photo sc, act_label = ''SUNRISE PHOTOS''\<rparr>,
            \<lparr>act_name = ''surf'', act_score = surf sc, act_label = ''GO SURF''\<rparr>,
            \<lparr>act_name = ''cycle'', act_score = cycle sc, act_label = ''GO CYCLING''\<rparr>]
         else
           [\<lparr>act_name = ''photo'', act_score = photo sc, act_label = ''SUNRISE PHOTOS''\<rparr>,
            \<lparr>act_name = ''cycle'', act_score = cycle sc, act_label = ''GO CYCLING''\<rparr>,
            \<lparr>act_name = ''surf'', act_score = surf sc, act_label = ''GO SURF''\<rparr>])
      else
        (if surf sc \<ge> cycle sc then
           [\<lparr>act_name = ''surf'', act_score = surf sc, act_label = ''GO SURF''\<rparr>,
            \<lparr>act_name = ''cycle'', act_score = cycle sc, act_label = ''GO CYCLING''\<rparr>,
            \<lparr>act_name = ''photo'', act_score = photo sc, act_label = ''SUNRISE PHOTOS''\<rparr>]
         else if surf sc \<ge> photo sc then
           [\<lparr>act_name = ''cycle'', act_score = cycle sc, act_label = ''GO CYCLING''\<rparr>,
            \<lparr>act_name = ''surf'', act_score = surf sc, act_label = ''GO SURF''\<rparr>,
            \<lparr>act_name = ''photo'', act_score = photo sc, act_label = ''SUNRISE PHOTOS''\<rparr>]
         else
           [\<lparr>act_name = ''cycle'', act_score = cycle sc, act_label = ''GO CYCLING''\<rparr>,
            \<lparr>act_name = ''photo'', act_score = photo sc, act_label = ''SUNRISE PHOTOS''\<rparr>,
            \<lparr>act_name = ''surf'', act_score = surf sc, act_label = ''GO SURF''\<rparr>]))"
  by (simp add: ranked_activities_def activities_def array_sort_def)

text \<open>The first element of the sorted array: its score is the largest of the three, and
  which activity it is.\<close>

lemma ranked_best:
  "\<exists>best rest. ranked_activities sc = best # rest
     \<and> act_score best = max (surf sc) (max (photo sc) (cycle sc))
     \<and> (act_name best = ''surf'' \<and> act_label best = ''GO SURF''
           \<and> surf sc \<ge> photo sc \<and> surf sc \<ge> cycle sc
         \<or> act_name best = ''photo'' \<and> act_label best = ''SUNRISE PHOTOS''
           \<and> photo sc > surf sc \<and> photo sc \<ge> cycle sc
         \<or> act_name best = ''cycle'' \<and> act_label best = ''GO CYCLING''
           \<and> cycle sc > surf sc \<and> cycle sc > photo sc)"
  unfolding ranked_activities_cases by (simp add: max_def)

text \<open>
  C6. When the largest of the three scores is below 4, the arbiter returns the sleep-in
  recommendation with its fixed detail and icon, whichever activity has the largest score.
\<close>

theorem sleep_in_override:
  assumes "max (surf sc) (max (photo sc) (cycle sc)) < 4"
  shows "getRecommendation sc surfData cycData =
           Inr \<lparr>rec_activity = ''SLEEP IN'',
                rec_detail = ''Nothing looks great tomorrow'',
                rec_icon = Some ''&#128564;''\<rparr>"
proof -
  from ranked_best [of sc] obtain best rest
    where "ranked_activities sc = best # rest"
      and "act_score best = max (surf sc) (max (photo sc) (cycle sc))"
    by blast
  with assms show ?thesis
    by (simp add: getRecommendation_def)
qed

theorem sleep_in_override_witness:
  "max (3::real) (max 2 1) < 4
   \<and> getRecommendation \<lparr>surf = 3, photo = 2, cycle = 1\<rparr> (Some sample_surf) sample_cycle =
       Inr \<lparr>rec_activity = ''SLEEP IN'',
            rec_detail = ''Nothing looks great tomorrow'',
            rec_icon = Some ''&#128564;''\<rparr>"
  using sleep_in_override [of "\<lparr>surf = 3, photo = 2, cycle = 1\<rparr>" "Some sample_surf" sample_cycle]
  by simp

text \<open>The sort model for a comparator \<open>b.key - a.key\<close>, for every array: the result is a
  rearrangement, its keys descend, and elements with equal keys keep their order. These three
  properties determine the result, so every sort that meets them, as the language requires
  of \<^verbatim>\<open>Array.prototype.sort\<close>, returns the same array.\<close>

lemma insert_by_mset: "mset (insert_by cmp x ys) = add_mset x (mset ys)"
  by (induction ys) simp_all

lemma array_sort_mset: "mset (array_sort cmp xs) = mset xs"
  by (induction xs) (simp_all add: array_sort_def insert_by_mset)

lemma insert_by_set: "set (insert_by cmp x ys) = insert x (set ys)"
proof -
  have "set_mset (mset (insert_by cmp x ys)) = set_mset (add_mset x (mset ys))"
    by (simp only: insert_by_mset)
  then show ?thesis by simp
qed

lemma insert_by_descending:
  fixes key :: "'a \<Rightarrow> real"
  assumes "sorted_wrt (\<lambda>a b. key a \<ge> key b) ys"
  shows "sorted_wrt (\<lambda>a b. key a \<ge> key b) (insert_by (\<lambda>a b. key b - key a) x ys)"
  using assms
proof (induction ys)
  case Nil
  then show ?case by simp
next
  case (Cons y ys)
  show ?case
  proof (cases "key y - key x \<le> 0")
    case True
    with Cons.prems show ?thesis by (auto intro: order_trans)
  next
    case False
    with Cons show ?thesis by (auto simp add: insert_by_set)
  qed
qed

lemma array_sort_descending:
  fixes key :: "'a \<Rightarrow> real"
  shows "sorted_wrt (\<lambda>a b. key a \<ge> key b) (array_sort (\<lambda>a b. key b - key a) xs)"
proof (induction xs)
  case Nil
  then show ?case by (simp add: array_sort_def)
next
  case (Cons x xs)
  then have "sorted_wrt (\<lambda>a b. key a \<ge> key b)
               (insert_by (\<lambda>a b. key b - key a) x (array_sort (\<lambda>a b. key b - key a) xs))"
    by (rule insert_by_descending)
  then show ?case by (simp add: array_sort_def)
qed

lemma insert_by_stable:
  fixes key :: "'a \<Rightarrow> real"
  shows "filter (\<lambda>a. key a = k) (insert_by (\<lambda>a b. key b - key a) x ys)
           = filter (\<lambda>a. key a = k) (x # ys)"
  by (induction ys) auto

lemma array_sort_stable:
  fixes key :: "'a \<Rightarrow> real"
  shows "filter (\<lambda>a. key a = k) (array_sort (\<lambda>a b. key b - key a) xs)
           = filter (\<lambda>a. key a = k) xs"
proof (induction xs)
  case Nil
  then show ?case by (simp add: array_sort_def)
next
  case (Cons x xs)
  have "filter (\<lambda>a. key a = k) (array_sort (\<lambda>a b. key b - key a) (x # xs))
          = filter (\<lambda>a. key a = k) (x # array_sort (\<lambda>a b. key b - key a) xs)"
    by (simp only: array_sort_def foldr.simps o_apply insert_by_stable)
  with Cons show ?case by simp
qed

lemma stable_descending_sort_unique:
  fixes key :: "'a \<Rightarrow> real"
  assumes "mset ys = mset xs"
    and "sorted_wrt (\<lambda>a b. key a \<ge> key b) ys"
    and "\<forall>k. filter (\<lambda>a. key a = k) ys = filter (\<lambda>a. key a = k) xs"
  shows "ys = array_sort (\<lambda>a b. key b - key a) xs"
proof -
  have same: "(\<lambda>a. - key b = - key a) = (\<lambda>a. key a = key b)" for b
    by auto
  have "sort_key (\<lambda>a. - key a) xs = ys"
  proof (rule properties_for_sort_key)
    show "mset ys = mset xs" by (rule assms(1))
    show "filter (\<lambda>a. - key b = - key a) ys = filter (\<lambda>a. - key b = - key a) xs" for b
      unfolding same using assms(3) by simp
    show "sorted (map (\<lambda>a. - key a) ys)"
      using assms(2) by (simp add: sorted_map)
  qed
  moreover have "sort_key (\<lambda>a. - key a) xs = array_sort (\<lambda>a b. key b - key a) xs"
  proof (rule properties_for_sort_key)
    show "mset (array_sort (\<lambda>a b. key b - key a) xs) = mset xs"
      by (rule array_sort_mset)
    show "filter (\<lambda>a. - key b = - key a) (array_sort (\<lambda>a b. key b - key a) xs)
            = filter (\<lambda>a. - key b = - key a) xs" for b
      unfolding same by (rule array_sort_stable)
    show "sorted (map (\<lambda>a. - key a) (array_sort (\<lambda>a b. key b - key a) xs))"
      using array_sort_descending [of key xs] by (simp add: sorted_map)
  qed
  ultimately show ?thesis by simp
qed

text \<open>The recommendation when the best score is at least 4: the label and the icon of the
  first activity of the sorted array.\<close>

lemma recommendation_of_best:
  assumes "ranked_activities sc = best # rest" and "4 \<le> act_score best"
  shows "\<exists>r. getRecommendation sc surfData cycData = Inr r
           \<and> rec_activity r = act_label best
           \<and> rec_icon r = map_of icons (act_name best)
           \<and> rec_detail r =
               (if act_name best = ''surf'' \<and> surfData \<noteq> None then
                  (case surfData of Some sd \<Rightarrow> surf_details sd | None \<Rightarrow> [])
                else if act_name best = ''cycle''
                        \<and> truthy_string (cycle_directionText cycData) then
                  (case cycle_directionText cycData of Some t \<Rightarrow> t | None \<Rightarrow> [])
                else if act_name best = ''photo'' then ''Get up early and find your spot''
                else [])"
  using assms by (simp add: getRecommendation_def)

text \<open>
  C7. The arbiter ranks the three activities by score, largest first, and activities with
  equal scores keep the input order surf, photo, cycle: the sorted array is a rearrangement of
  the input array, its scores descend, for every score the activities having it appear in the
  input order, and it is the only array with these three properties. The arbiter recommends
  the first activity of that array when its score is at least 4: surf when no other score is
  larger, photo when its score is larger than that of surf and at least that of cycle, cycle
  when its score is larger than both.
\<close>

theorem arbiter_ranking_stable:
  "mset (ranked_activities sc) = mset (activities sc)
   \<and> sorted_wrt (\<lambda>a b. act_score a \<ge> act_score b) (ranked_activities sc)
   \<and> (\<forall>x. filter (\<lambda>a. act_score a = x) (ranked_activities sc)
            = filter (\<lambda>a. act_score a = x) (activities sc))
   \<and> (\<forall>ys. mset ys = mset (activities sc)
            \<and> sorted_wrt (\<lambda>a b. act_score a \<ge> act_score b) ys
            \<and> (\<forall>x. filter (\<lambda>a. act_score a = x) ys
                     = filter (\<lambda>a. act_score a = x) (activities sc))
          \<longrightarrow> ys = ranked_activities sc)
   \<and> (\<exists>best rest. ranked_activities sc = best # rest
         \<and> (4 \<le> act_score best \<longrightarrow>
              (\<exists>r. getRecommendation sc surfData cycData = Inr r
                 \<and> rec_activity r = act_label best
                 \<and> rec_icon r = map_of icons (act_name best))))
   \<and> (4 \<le> surf sc \<and> photo sc \<le> surf sc \<and> cycle sc \<le> surf sc \<longrightarrow>
        (\<exists>r. getRecommendation sc surfData cycData = Inr r
           \<and> rec_activity r = ''GO SURF''
           \<and> rec_icon r = Some ''&#127940;''
           \<and> rec_detail r = (case surfData of Some sd \<Rightarrow> surf_details sd | None \<Rightarrow> [])))
   \<and> (4 \<le> photo sc \<and> surf sc < photo sc \<and> cycle sc \<le> photo sc \<longrightarrow>
        (\<exists>r. getRecommendation sc surfData cycData = Inr r
           \<and> rec_activity r = ''SUNRISE PHOTOS''
           \<and> rec_icon r = Some ''&#128247;''
           \<and> rec_detail r = ''Get up early and find your spot''))
   \<and> (4 \<le> cycle sc \<and> surf sc < cycle sc \<and> photo sc < cycle sc \<longrightarrow>
        (\<exists>r. getRecommendation sc surfData cycData = Inr r
           \<and> rec_activity r = ''GO CYCLING''
           \<and> rec_icon r = Some ''&#128690;''
           \<and> rec_detail r =
               (case cycle_directionText cycData of Some t \<Rightarrow> t | None \<Rightarrow> [])))"
proof -
  from ranked_best [of sc] obtain best rest
    where ranked: "ranked_activities sc = best # rest"
      and top: "act_score best = max (surf sc) (max (photo sc) (cycle sc))"
      and which: "act_name best = ''surf'' \<and> act_label best = ''GO SURF''
                    \<and> surf sc \<ge> photo sc \<and> surf sc \<ge> cycle sc
                  \<or> act_name best = ''photo'' \<and> act_label best = ''SUNRISE PHOTOS''
                    \<and> photo sc > surf sc \<and> photo sc \<ge> cycle sc
                  \<or> act_name best = ''cycle'' \<and> act_label best = ''GO CYCLING''
                    \<and> cycle sc > surf sc \<and> cycle sc > photo sc"
    by blast
  note of_best = recommendation_of_best [OF ranked, of surfData cycData]
  have perm: "mset (ranked_activities sc) = mset (activities sc)"
    unfolding ranked_activities_def by (rule array_sort_mset)
  have desc: "sorted_wrt (\<lambda>a b. act_score a \<ge> act_score b) (ranked_activities sc)"
    unfolding ranked_activities_def by (rule array_sort_descending)
  have stable: "\<forall>x. filter (\<lambda>a. act_score a = x) (ranked_activities sc)
                     = filter (\<lambda>a. act_score a = x) (activities sc)"
    unfolding ranked_activities_def by (intro allI array_sort_stable)
  have only: "\<forall>ys. mset ys = mset (activities sc)
                \<and> sorted_wrt (\<lambda>a b. act_score a \<ge> act_score b) ys
                \<and> (\<forall>x. filter (\<lambda>a. act_score a = x) ys
                         = filter (\<lambda>a. act_score a = x) (activities sc))
              \<longrightarrow> ys = ranked_activities sc"
    unfolding ranked_activities_def by (blast intro: stable_descending_sort_unique)
  have head: "\<exists>best rest. ranked_activities sc = best # rest
                \<and> (4 \<le> act_score best \<longrightarrow>
                     (\<exists>r. getRecommendation sc surfData cycData = Inr r
                        \<and> rec_activity r = act_label best
                        \<and> rec_icon r = map_of icons (act_name best)))"
    using ranked recommendation_of_best [of sc best rest surfData cycData] by blast
  have s: "4 \<le> surf sc \<and> photo sc \<le> surf sc \<and> cycle sc \<le> surf sc \<longrightarrow>
             (\<exists>r. getRecommendation sc surfData cycData = Inr r
                \<and> rec_activity r = ''GO SURF''
                \<and> rec_icon r = Some ''&#127940;''
                \<and> rec_detail r = (case surfData of Some sd \<Rightarrow> surf_details sd | None \<Rightarrow> []))"
  proof
    assume a: "4 \<le> surf sc \<and> photo sc \<le> surf sc \<and> cycle sc \<le> surf sc"
    with which have "act_name best = ''surf''" and "act_label best = ''GO SURF''" by auto
    moreover from a top have "4 \<le> act_score best" by simp
    ultimately show "\<exists>r. getRecommendation sc surfData cycData = Inr r
                \<and> rec_activity r = ''GO SURF''
                \<and> rec_icon r = Some ''&#127940;''
                \<and> rec_detail r = (case surfData of Some sd \<Rightarrow> surf_details sd | None \<Rightarrow> [])"
      using of_best by (auto simp add: icons_def split: option.splits)
  qed
  have p: "4 \<le> photo sc \<and> surf sc < photo sc \<and> cycle sc \<le> photo sc \<longrightarrow>
             (\<exists>r. getRecommendation sc surfData cycData = Inr r
                \<and> rec_activity r = ''SUNRISE PHOTOS''
                \<and> rec_icon r = Some ''&#128247;''
                \<and> rec_detail r = ''Get up early and find your spot'')"
  proof
    assume a: "4 \<le> photo sc \<and> surf sc < photo sc \<and> cycle sc \<le> photo sc"
    with which have "act_name best = ''photo''" and "act_label best = ''SUNRISE PHOTOS''"
      by auto
    moreover from a top have "4 \<le> act_score best" by simp
    ultimately show "\<exists>r. getRecommendation sc surfData cycData = Inr r
                \<and> rec_activity r = ''SUNRISE PHOTOS''
                \<and> rec_icon r = Some ''&#128247;''
                \<and> rec_detail r = ''Get up early and find your spot''"
      using of_best by (auto simp add: icons_def)
  qed
  have c: "4 \<le> cycle sc \<and> surf sc < cycle sc \<and> photo sc < cycle sc \<longrightarrow>
             (\<exists>r. getRecommendation sc surfData cycData = Inr r
                \<and> rec_activity r = ''GO CYCLING''
                \<and> rec_icon r = Some ''&#128690;''
                \<and> rec_detail r =
                    (case cycle_directionText cycData of Some t \<Rightarrow> t | None \<Rightarrow> []))"
  proof
    assume a: "4 \<le> cycle sc \<and> surf sc < cycle sc \<and> photo sc < cycle sc"
    with which have "act_name best = ''cycle''" and "act_label best = ''GO CYCLING''"
      by auto
    moreover from a top have "4 \<le> act_score best" by simp
    ultimately show "\<exists>r. getRecommendation sc surfData cycData = Inr r
                \<and> rec_activity r = ''GO CYCLING''
                \<and> rec_icon r = Some ''&#128690;''
                \<and> rec_detail r =
                    (case cycle_directionText cycData of Some t \<Rightarrow> t | None \<Rightarrow> [])"
      using of_best by (cases "cycle_directionText cycData") (auto simp add: icons_def)
  qed
  from perm desc stable only head s p c show ?thesis by blast
qed

theorem arbiter_ranking_stable_witness:
  "getRecommendation \<lparr>surf = 7, photo = 7, cycle = 5\<rparr> (Some sample_surf) sample_cycle =
     Inr \<lparr>rec_activity = ''GO SURF'', rec_detail = ''3.2ft @ 9s E'',
          rec_icon = Some ''&#127940;''\<rparr>
   \<and> getRecommendation \<lparr>surf = 5, photo = 7, cycle = 7\<rparr> (Some sample_surf) sample_cycle =
       Inr \<lparr>rec_activity = ''SUNRISE PHOTOS'',
            rec_detail = ''Get up early and find your spot'',
            rec_icon = Some ''&#128247;''\<rparr>
   \<and> getRecommendation \<lparr>surf = 5, photo = 7, cycle = 8\<rparr> (Some sample_surf) sample_cycle =
       Inr \<lparr>rec_activity = ''GO CYCLING'',
            rec_detail = ''Wind is cross-shore, either direction works'',
            rec_icon = Some ''&#128690;''\<rparr>"
proof -
  from arbiter_ranking_stable [of "\<lparr>surf = 7, photo = 7, cycle = 5\<rparr>" "Some sample_surf"
      sample_cycle]
  obtain r1 where "getRecommendation \<lparr>surf = 7, photo = 7, cycle = 5\<rparr> (Some sample_surf)
                     sample_cycle = Inr r1"
    and "rec_activity r1 = ''GO SURF''" and "rec_icon r1 = Some ''&#127940;''"
    and "rec_detail r1 = surf_details sample_surf"
    by auto
  then have a: "getRecommendation \<lparr>surf = 7, photo = 7, cycle = 5\<rparr> (Some sample_surf)
                  sample_cycle =
                Inr \<lparr>rec_activity = ''GO SURF'', rec_detail = ''3.2ft @ 9s E'',
                     rec_icon = Some ''&#127940;''\<rparr>"
    by (cases r1) (simp add: sample_surf_def)
  from arbiter_ranking_stable [of "\<lparr>surf = 5, photo = 7, cycle = 7\<rparr>" "Some sample_surf"
      sample_cycle]
  obtain r2 where "getRecommendation \<lparr>surf = 5, photo = 7, cycle = 7\<rparr> (Some sample_surf)
                     sample_cycle = Inr r2"
    and "rec_activity r2 = ''SUNRISE PHOTOS''" and "rec_icon r2 = Some ''&#128247;''"
    and "rec_detail r2 = ''Get up early and find your spot''"
    by auto
  then have b: "getRecommendation \<lparr>surf = 5, photo = 7, cycle = 7\<rparr> (Some sample_surf)
                  sample_cycle =
                Inr \<lparr>rec_activity = ''SUNRISE PHOTOS'',
                     rec_detail = ''Get up early and find your spot'',
                     rec_icon = Some ''&#128247;''\<rparr>"
    by (cases r2) simp
  from arbiter_ranking_stable [of "\<lparr>surf = 5, photo = 7, cycle = 8\<rparr>" "Some sample_surf"
      sample_cycle]
  obtain r3 where "getRecommendation \<lparr>surf = 5, photo = 7, cycle = 8\<rparr> (Some sample_surf)
                     sample_cycle = Inr r3"
    and "rec_activity r3 = ''GO CYCLING''" and "rec_icon r3 = Some ''&#128690;''"
    and "rec_detail r3 = (case cycle_directionText sample_cycle of Some t \<Rightarrow> t | None \<Rightarrow> [])"
    by auto
  then have c: "getRecommendation \<lparr>surf = 5, photo = 7, cycle = 8\<rparr> (Some sample_surf)
                  sample_cycle =
                Inr \<lparr>rec_activity = ''GO CYCLING'',
                     rec_detail = ''Wind is cross-shore, either direction works'',
                     rec_icon = Some ''&#128690;''\<rparr>"
    by (cases r3) (simp add: sample_cycle_def)
  from a b c show ?thesis by simp
qed

text \<open>
  C10. The arbiter always returns a recommendation; its activity label is one of the four
  strings \<^verbatim>\<open>GO SURF\<close>, \<^verbatim>\<open>SUNRISE PHOTOS\<close>, \<^verbatim>\<open>GO CYCLING\<close> and \<^verbatim>\<open>SLEEP IN\<close>, its icon is the
  icon of that label, and when photo wins with a score of at least 4 the label is
  \<^verbatim>\<open>SUNRISE PHOTOS\<close> and the detail is \<^verbatim>\<open>Get up early and find your spot\<close>.
\<close>

theorem recommendation_labels:
  "\<exists>r. getRecommendation sc surfData cycData = Inr r
     \<and> rec_activity r \<in> {''GO SURF'', ''SUNRISE PHOTOS'', ''GO CYCLING'', ''SLEEP IN''}
     \<and> rec_icon r = label_icon (rec_activity r)
     \<and> (map act_name (take 1 (ranked_activities sc)) = [''photo''] \<and> photo sc \<ge> 4 \<longrightarrow>
          rec_activity r = ''SUNRISE PHOTOS''
          \<and> rec_detail r = ''Get up early and find your spot'')"
proof -
  from ranked_best [of sc] obtain best rest
    where ranked: "ranked_activities sc = best # rest"
      and top: "act_score best = max (surf sc) (max (photo sc) (cycle sc))"
      and which: "act_name best = ''surf'' \<and> act_label best = ''GO SURF''
                    \<and> surf sc \<ge> photo sc \<and> surf sc \<ge> cycle sc
                  \<or> act_name best = ''photo'' \<and> act_label best = ''SUNRISE PHOTOS''
                    \<and> photo sc > surf sc \<and> photo sc \<ge> cycle sc
                  \<or> act_name best = ''cycle'' \<and> act_label best = ''GO CYCLING''
                    \<and> cycle sc > surf sc \<and> cycle sc > photo sc"
    by blast
  show ?thesis
  proof (cases "act_score best < 4")
    case True
    then have "getRecommendation sc surfData cycData =
                 Inr \<lparr>rec_activity = ''SLEEP IN'',
                      rec_detail = ''Nothing looks great tomorrow'',
                      rec_icon = Some ''&#128564;''\<rparr>"
      using ranked by (simp add: getRecommendation_def)
    moreover have "\<not> (map act_name (take 1 (ranked_activities sc)) = [''photo'']
                       \<and> photo sc \<ge> 4)"
      using True top which ranked by auto
    ultimately show ?thesis
      by (simp add: label_icon_def)
  next
    case False
    from which show ?thesis
    proof (elim disjE conjE)
      assume "act_name best = ''surf''" and "act_label best = ''GO SURF''"
      with False ranked show ?thesis
        by (simp add: getRecommendation_def label_icon_def icons_def)
    next
      assume "act_name best = ''photo''" and "act_label best = ''SUNRISE PHOTOS''"
      with False ranked show ?thesis
        by (simp add: getRecommendation_def label_icon_def icons_def)
    next
      assume "act_name best = ''cycle''" and "act_label best = ''GO CYCLING''"
      with False ranked show ?thesis
        by (simp add: getRecommendation_def label_icon_def icons_def)
    qed
  qed
qed

theorem recommendation_labels_witness:
  "getRecommendation \<lparr>surf = 3, photo = 8, cycle = 5\<rparr> (Some sample_surf) sample_cycle =
     Inr \<lparr>rec_activity = ''SUNRISE PHOTOS'',
          rec_detail = ''Get up early and find your spot'',
          rec_icon = label_icon ''SUNRISE PHOTOS''\<rparr>"
proof -
  have wins: "map act_name (take 1 (ranked_activities \<lparr>surf = 3, photo = 8, cycle = 5\<rparr>))
                = [''photo'']"
    by (simp add: ranked_activities_def activities_def array_sort_def)
  from recommendation_labels [of "\<lparr>surf = 3, photo = 8, cycle = 5\<rparr>" "Some sample_surf"
      sample_cycle]
  obtain r where "getRecommendation \<lparr>surf = 3, photo = 8, cycle = 5\<rparr> (Some sample_surf)
                    sample_cycle = Inr r"
    and "rec_icon r = label_icon (rec_activity r)"
    and "rec_activity r = ''SUNRISE PHOTOS''"
    and "rec_detail r = ''Get up early and find your spot''"
    using wins by auto
  then show ?thesis by simp
qed

subsection \<open>Tide formatter\<close>

text \<open>One pass of the loop body pushes the rendering of a kept prediction and nothing for any
  other prediction, provided a prediction of type H or L on the target date has a clock
  time.\<close>

lemma tide_body_kept:
  assumes "tide_kept tomorrow p"
  shows "\<exists>e. tide_body tomorrow p = Inr (Some e)
           \<and> tide_type e @ '' '' @ tide_time e = tide_rendered p"
proof -
  from assms have ty: "\<not> (pred_type p \<noteq> ''H'' \<and> pred_type p \<noteq> ''L'')"
    and date: "part_at (split_on CHR '' '' (pred_t p)) 0 = Some tomorrow"
    by (simp_all add: tide_kept_def pred_date_def)
  from assms obtain h where hour: "pred_hour p = Some h" and lo: "4 \<le> h" and hi: "h \<le> 12"
    by (auto simp add: tide_kept_def split: option.splits)
  from hour obtain ts where clock: "part_at (split_on CHR '' '' (pred_t p)) 1 = Some ts"
    and parse: "parseInt (hd (split_on CHR '':'' ts)) = Some h"
    by (auto simp add: pred_hour_def pred_clock_def split: option.splits)
  have mins: "pred_minutes p =
                (case part_at (split_on CHR '':'' ts) 1 of None \<Rightarrow> ''undefined'' | Some mm \<Rightarrow> mm)"
    using clock by (simp add: pred_minutes_def pred_clock_def)
  have ampm: "(12 \<le> h) = (h = 12)" and h12: "\<not> 12 < h" "h \<noteq> 0"
    using lo hi by auto
  show ?thesis
    unfolding tide_body_def tide_rendered_def Let_def
    using ty date clock parse lo hi
    by (simp add: hour mins ampm h12)
qed

lemma tide_body_dropped:
  assumes "\<not> tide_kept tomorrow p"
    and "(pred_type p = ''H'' \<or> pred_type p = ''L'') \<and> pred_date p = Some tomorrow
         \<longrightarrow> pred_clock p \<noteq> None"
  shows "tide_body tomorrow p = Inr None"
proof (cases "(pred_type p = ''H'' \<or> pred_type p = ''L'') \<and> pred_date p = Some tomorrow")
  case False
  then show ?thesis
    by (auto simp add: tide_body_def pred_date_def Let_def)
next
  case True
  with assms(2) obtain ts where clock: "pred_clock p = Some ts" by auto
  from True assms(1) have out: "case pred_hour p of None \<Rightarrow> True | Some h \<Rightarrow> \<not> (4 \<le> h \<and> h \<le> 12)"
    by (auto simp add: tide_kept_def split: option.splits)
  have hour: "pred_hour p = parseInt (hd (split_on CHR '':'' ts))"
    using clock by (simp add: pred_hour_def)
  from True have ty: "\<not> (pred_type p \<noteq> ''H'' \<and> pred_type p \<noteq> ''L'')"
    and date: "part_at (split_on CHR '' '' (pred_t p)) 0 = Some tomorrow"
    by (simp_all add: pred_date_def)
  from clock have clock': "part_at (split_on CHR '' '' (pred_t p)) 1 = Some ts"
    by (simp add: pred_clock_def)
  show ?thesis
    unfolding tide_body_def Let_def
    using ty date clock' out
    by (auto simp add: hour split: option.splits)
qed

text \<open>The loop appends the renderings of the kept predictions, in their order.\<close>

lemma tide_loop_kept:
  assumes "\<forall>p \<in> set preds.
             (pred_type p = ''H'' \<or> pred_type p = ''L'') \<and> pred_date p = Some tomorrow
             \<longrightarrow> pred_clock p \<noteq> None"
  shows "\<exists>es. tide_loop tomorrow acc preds = Inr (acc @ es)
           \<and> map (\<lambda>t. tide_type t @ '' '' @ tide_time t) es
               = map tide_rendered (filter (tide_kept tomorrow) preds)"
  using assms
proof (induction preds arbitrary: acc)
  case Nil
  then show ?case by simp
next
  case (Cons p preds)
  then have rest: "\<forall>q \<in> set preds.
                     (pred_type q = ''H'' \<or> pred_type q = ''L'') \<and> pred_date q = Some tomorrow
                     \<longrightarrow> pred_clock q \<noteq> None"
    and this_one: "(pred_type p = ''H'' \<or> pred_type p = ''L'') \<and> pred_date p = Some tomorrow
                   \<longrightarrow> pred_clock p \<noteq> None"
    by simp_all
  show ?case
  proof (cases "tide_kept tomorrow p")
    case True
    from tide_body_kept [OF True] obtain e
      where body: "tide_body tomorrow p = Inr (Some e)"
        and shown: "tide_type e @ '' '' @ tide_time e = tide_rendered p"
      by blast
    from Cons.IH [OF rest, of "acc @ [e]"] obtain es
      where "tide_loop tomorrow (acc @ [e]) preds = Inr ((acc @ [e]) @ es)"
        and "map (\<lambda>t. tide_type t @ '' '' @ tide_time t) es
               = map tide_rendered (filter (tide_kept tomorrow) preds)"
      by blast
    with body shown True show ?thesis
      by (intro exI [of _ "e # es"]) simp
  next
    case False
    from tide_body_dropped [OF False this_one]
    have body: "tide_body tomorrow p = Inr None" .
    from Cons.IH [OF rest, of acc] obtain es
      where "tide_loop tomorrow acc preds = Inr (acc @ es)"
        and "map (\<lambda>t. tide_type t @ '' '' @ tide_time t) es
               = map tide_rendered (filter (tide_kept tomorrow) preds)"
      by blast
    with body False show ?thesis
      by (intro exI [of _ es]) simp
  qed
qed

text \<open>
  C5 (as amended). The tide formatter keeps exactly the predictions whose type is H or L,
  whose date is the target date and whose hour is between 4 and 12, in the order of the
  source; it renders each as the type, a blank, the hour without a leading zero, a colon, the
  minutes, a blank and \<^verbatim>\<open>AM\<close> or \<^verbatim>\<open>PM\<close>, joins them with a comma and a blank, and returns
  \<^verbatim>\<open>--\<close> when none is kept or the list is absent. (The hypothesis is that a prediction of
  type H or L on the target date has a clock time after the blank; without one the code
  throws.)
\<close>

theorem tide_info_kept_rendered:
  assumes "\<forall>p \<in> set preds.
             (pred_type p = ''H'' \<or> pred_type p = ''L'') \<and> pred_date p = Some tomorrow
             \<longrightarrow> pred_clock p \<noteq> None"
  shows "getNoaaTideInfo (Some preds) tomorrow =
           Inr (if filter (tide_kept tomorrow) preds = [] then ''--''
                else join '', '' (map tide_rendered (filter (tide_kept tomorrow) preds)))
         \<and> getNoaaTideInfo None tomorrow = Inr ''--''"
proof -
  from tide_loop_kept [OF assms, of "[]"] obtain es
    where loop: "tide_loop tomorrow [] preds = Inr es"
      and shown: "map (\<lambda>t. tide_type t @ '' '' @ tide_time t) es
                    = map tide_rendered (filter (tide_kept tomorrow) preds)"
    by auto
  from shown have "length es = length (filter (tide_kept tomorrow) preds)"
    by (metis length_map)
  then have empty: "(es = []) = (filter (tide_kept tomorrow) preds = [])"
    by (metis length_0_conv)
  show ?thesis
  proof (cases "preds = []")
    case True
    then show ?thesis by (simp add: getNoaaTideInfo_def)
  next
    case False
    with loop shown empty show ?thesis
      by (simp add: getNoaaTideInfo_def)
  qed
qed

theorem tide_info_kept_rendered_witness:
  "getNoaaTideInfo (Some scenario_tides) ''2024-02-27'' = Inr ''H 5:45 AM, L 11:50 AM''"
proof -
  have clocks: "\<forall>p \<in> set scenario_tides.
                  (pred_type p = ''H'' \<or> pred_type p = ''L'') \<and> pred_date p = Some ''2024-02-27''
                  \<longrightarrow> pred_clock p \<noteq> None"
    by code_simp
  have shown: "(if filter (tide_kept ''2024-02-27'') scenario_tides = [] then ''--''
                else join '', '' (map tide_rendered
                       (filter (tide_kept ''2024-02-27'') scenario_tides)))
               = ''H 5:45 AM, L 11:50 AM''"
    by code_simp
  from tide_info_kept_rendered [OF clocks] shown show ?thesis
    by simp
qed

text \<open>The output the specification gives for this example, without a blank before
  \<^verbatim>\<open>AM\<close>, is not the one the code produces.\<close>

theorem tide_info_counterexample:
  "getNoaaTideInfo (Some scenario_tides) ''2024-02-27'' \<noteq> Inr ''H 5:45AM, L 11:50AM''"
  by code_simp

end
